theory Spec2Isabelle
  imports Complex_Main
begin

section \<open>JavaScript values\<close>

text \<open>
  The repository is JavaScript. Its strings are modelled as \<open>string\<close> (the UTF-8 bytes of
  the text), its numbers as \<open>jsnum\<close> (the three non-finite doubles and the finite values,
  as rationals), and a value of unknown shape as \<open>jsval\<close>. An object is the list of its own
  properties in insertion order; an array carries its elements and the named properties
  assigned to it.
\<close>

datatype jsnum = NaN | Infinity | NegInfinity | Num rat

datatype jsval =
    JUndefined
  | JNull
  | JBool bool
  | JNumber jsnum
  | JStr string
  | JArr "jsval list" "(string \<times> jsval) list"
  | JObj "(string \<times> jsval) list"

type_synonym jsobj = "(string \<times> jsval) list"

text \<open>Truthiness, as \<open>!x\<close> and \<open>x ? a : b\<close> read it.\<close>

fun truthy :: "jsval \<Rightarrow> bool" where
  "truthy JUndefined = False"
| "truthy JNull = False"
| "truthy (JBool b) = b"
| "truthy (JNumber NaN) = False"
| "truthy (JNumber (Num r)) = (r \<noteq> 0)"
| "truthy (JNumber _) = True"
| "truthy (JStr s) = (s \<noteq> [])"
| "truthy (JArr _ _) = True"
| "truthy (JObj _) = True"

text \<open>\<open>typeof x === 'object'\<close> holds of objects, arrays and \<open>null\<close>.\<close>

fun typeof_object :: "jsval \<Rightarrow> bool" where
  "typeof_object JNull = True"
| "typeof_object (JArr _ _) = True"
| "typeof_object (JObj _) = True"
| "typeof_object _ = False"

text \<open>Reading a property: \<open>undefined\<close> when the value has no such own property.\<close>

definition lookup :: "jsobj \<Rightarrow> string \<Rightarrow> jsval" where
  "lookup ps k = (case map_of ps k of None \<Rightarrow> JUndefined | Some v \<Rightarrow> v)"

fun get_prop :: "jsval \<Rightarrow> string \<Rightarrow> jsval" where
  "get_prop (JObj ps) k = lookup ps k"
| "get_prop (JArr _ ps) k = lookup ps k"
| "get_prop _ k = JUndefined"

text \<open>
  Writing a property keeps the position of a key that exists and appends a new one, which is
  also how an object spread \<open>{...a, ...b}\<close> lays out its result.
\<close>

fun obj_set :: "string \<Rightarrow> jsval \<Rightarrow> jsobj \<Rightarrow> jsobj" where
  "obj_set k v [] = [(k, v)]"
| "obj_set k v ((k', v') # ps) =
     (if k' = k then (k, v) # ps else (k', v') # obj_set k v ps)"

definition spread :: "jsobj \<Rightarrow> jsobj \<Rightarrow> jsobj" where
  "spread a b = foldl (\<lambda>acc (k, v). obj_set k v acc) a b"

definition has_key :: "jsobj \<Rightarrow> string \<Rightarrow> bool" where
  "has_key ps k = (map_of ps k \<noteq> None)"

subsection \<open>Strings\<close>

text \<open>
  A string is the UTF-8 bytes of well-formed text. \<open>toLowerCase\<close> on the ASCII letters;
  bytes of characters beyond ASCII are left as they are.
\<close>

definition lower_char :: "char \<Rightarrow> char" where
  "lower_char c =
     (case map_of (zip ''ABCDEFGHIJKLMNOPQRSTUVWXYZ'' ''abcdefghijklmnopqrstuvwxyz'') c of
        None \<Rightarrow> c
      | Some l \<Rightarrow> l)"

definition toLowerCase :: "string \<Rightarrow> string" where
  "toLowerCase s = map lower_char s"

definition startsWith :: "string \<Rightarrow> string \<Rightarrow> bool" where
  "startsWith s p = (take (length p) s = p)"

text \<open>
  What \<open>String.prototype.trim\<close> removes at both ends: the white space and the line
  terminators of ECMAScript, each by its UTF-8 bytes. These are tab, line feed, vertical
  tab, form feed, carriage return and space; U+00A0; U+1680; U+2000 to U+200A; U+2028,
  U+2029 and U+202F; U+205F; U+3000; U+FEFF.
\<close>

definition WHITE_SPACE :: "string list" where
  "WHITE_SPACE =
     [[CHR 0x09], [CHR 0x0A], [CHR 0x0B], [CHR 0x0C], [CHR 0x0D], [CHR 0x20],
      [CHR 0xC2, CHR 0xA0],
      [CHR 0xE1, CHR 0x9A, CHR 0x80],
      [CHR 0xE2, CHR 0x80, CHR 0x80], [CHR 0xE2, CHR 0x80, CHR 0x81],
      [CHR 0xE2, CHR 0x80, CHR 0x82], [CHR 0xE2, CHR 0x80, CHR 0x83],
      [CHR 0xE2, CHR 0x80, CHR 0x84], [CHR 0xE2, CHR 0x80, CHR 0x85],
      [CHR 0xE2, CHR 0x80, CHR 0x86], [CHR 0xE2, CHR 0x80, CHR 0x87],
      [CHR 0xE2, CHR 0x80, CHR 0x88], [CHR 0xE2, CHR 0x80, CHR 0x89],
      [CHR 0xE2, CHR 0x80, CHR 0x8A],
      [CHR 0xE2, CHR 0x80, CHR 0xA8], [CHR 0xE2, CHR 0x80, CHR 0xA9],
      [CHR 0xE2, CHR 0x80, CHR 0xAF],
      [CHR 0xE2, CHR 0x81, CHR 0x9F],
      [CHR 0xE3, CHR 0x80, CHR 0x80],
      [CHR 0xEF, CHR 0xBB, CHR 0xBF]]"

text \<open>
  \<open>strip_one ws s\<close> removes one of the sequences \<open>ws\<close> from the start of \<open>s\<close>, if
  \<open>s\<close> starts with one; \<open>strip_leading\<close> does so as long as it can. The end of a string
  is trimmed on its reverse, with the sequences reversed: in well-formed UTF-8 no character
  ends with the bytes of another.
\<close>

definition strip_one :: "string list \<Rightarrow> string \<Rightarrow> string option" where
  "strip_one ws s =
     (case find (\<lambda>w. w \<noteq> [] \<and> startsWith s w) ws of
        None \<Rightarrow> None
      | Some w \<Rightarrow> Some (drop (length w) s))"

function strip_leading :: "string list \<Rightarrow> string \<Rightarrow> string" where
  "strip_leading ws s =
     (case strip_one ws s of None \<Rightarrow> s | Some rest \<Rightarrow> strip_leading ws rest)"
  by pat_completeness auto
termination
proof (relation "measure (\<lambda>(ws, s). length s)")
  show "wf (measure (\<lambda>(ws, s). length s))" by simp
next
  fix ws :: "string list" and s rest :: string
  assume "strip_one ws s = Some rest"
  then obtain w where w: "w \<noteq> []" "take (length w) s = w" and r: "rest = drop (length w) s"
    by (auto simp add: strip_one_def startsWith_def find_Some_iff split: option.splits)
  from w(2) have "length (take (length w) s) = length w" by simp
  then have "length w \<le> length s" by simp
  moreover from w(1) have "0 < length w" by simp
  ultimately have "length rest < length s"
    using r by (simp del: length_greater_0_conv)
  then show "((ws, rest), (ws, s)) \<in> measure (\<lambda>(ws, s). length s)"
    by simp
qed

declare strip_leading.simps [simp del]

definition trimStart :: "string \<Rightarrow> string" where
  "trimStart s = strip_leading WHITE_SPACE s"

definition trimEnd :: "string \<Rightarrow> string" where
  "trimEnd s = rev (strip_leading (map rev WHITE_SPACE) (rev s))"

definition trim :: "string \<Rightarrow> string" where
  "trim s = trimEnd (trimStart s)"

fun str_includes :: "string \<Rightarrow> string \<Rightarrow> bool" where
  "str_includes [] p = (p = [])"
| "str_includes (c # cs) p = (startsWith (c # cs) p \<or> str_includes cs p)"

section \<open>Provider payload adapter\<close>

text \<open>\<open>isGpt5Model\<close>: a string that starts, in lower case, with \<open>gpt-5\<close>.\<close>

fun isGpt5Model :: "jsval \<Rightarrow> bool" where
  "isGpt5Model (JStr m) = startsWith (toLowerCase m) ''gpt-5''"
| "isGpt5Model _ = False"

text \<open>
  \<open>normalizeReasoningEffort\<close> of the adapter: \<open>None\<close> is the \<open>null\<close> it returns.
\<close>

fun effort_candidate :: "jsval \<Rightarrow> string" where
  "effort_candidate (JStr s) = toLowerCase (trim s)"
| "effort_candidate _ = []"

definition REASONING_EFFORT_VALUES :: "string list" where
  "REASONING_EFFORT_VALUES = [''none'', ''low'', ''medium'', ''high'', ''xhigh'']"

definition normalizeReasoningEffort :: "jsval \<Rightarrow> string option" where
  "normalizeReasoningEffort reasoningEffort =
     (let candidate = effort_candidate reasoningEffort in
      if candidate = ''minimal'' then Some ''none''
      else if candidate = ''x-high'' \<or> candidate = ''x_high'' \<or> candidate = ''x high''
        then Some ''xhigh''
      else if candidate \<in> set [''none'', ''low'', ''medium'', ''high'', ''xhigh'']
        then Some candidate
      else None)"

text \<open>\<open>normalizeReasoningEffort\<close> of the settings service: the fallback is \<open>medium\<close>.\<close>

definition settings_normalizeReasoningEffort :: "jsval \<Rightarrow> string" where
  "settings_normalizeReasoningEffort v =
     (let candidate = effort_candidate v in
      if candidate = ''minimal'' then ''none''
      else if candidate = ''x-high'' \<or> candidate = ''x_high'' \<or> candidate = ''x high''
        then ''xhigh''
      else if candidate \<in> set REASONING_EFFORT_VALUES then candidate
      else ''medium'')"

text \<open>The value a caller holds after the adapter's normalization: a string or \<open>null\<close>.\<close>

fun effort_value :: "string option \<Rightarrow> jsval" where
  "effort_value None = JNull"
| "effort_value (Some s) = JStr s"

definition buildReasoningPayload :: "jsval \<Rightarrow> jsval \<Rightarrow> jsobj" where
  "buildReasoningPayload model reasoningEffort =
     (if \<not> isGpt5Model model then []
      else let effort = normalizeReasoningEffort reasoningEffort in
        if truthy (effort_value effort)
        then [(''reasoning'', JObj [(''effort'', effort_value effort)])]
        else [])"

text \<open>
  The own enumerable properties an object spread copies: an object's, in order, and for an
  array its elements under their indices followed by its named properties.
\<close>

fun to_dec :: "nat \<Rightarrow> string" where
  "to_dec n =
     (if n < 10 then [''0123456789'' ! n]
      else to_dec (n div 10) @ [''0123456789'' ! (n mod 10)])"

fun own_props :: "jsval \<Rightarrow> jsobj" where
  "own_props (JObj ps) = ps"
| "own_props (JArr xs ps) = zip (map to_dec [0..<length xs]) xs @ ps"
| "own_props _ = []"

text \<open>
  \<open>normalizeMessagesForModel\<close>. The result is the list of the elements of the array it
  returns. \<open>rewrite_system_role\<close> is the callback of its \<open>map\<close>.
\<close>

definition rewrite_system_role :: "jsval \<Rightarrow> jsval" where
  "rewrite_system_role message =
     (if \<not> truthy message \<or> \<not> typeof_object message then message
      else if get_prop message ''role'' = JStr ''system''
        then JObj (obj_set ''role'' (JStr ''developer'') (spread [] (own_props message)))
      else message)"

fun normalizeMessagesForModel :: "jsval \<Rightarrow> jsval \<Rightarrow> jsval list" where
  "normalizeMessagesForModel model (JArr messages ps) =
     (if \<not> isGpt5Model model then messages else map rewrite_system_role messages)"
| "normalizeMessagesForModel model _ = []"

fun is_number :: "jsval \<Rightarrow> bool" where
  "is_number (JNumber _) = True"
| "is_number _ = False"

fun is_string :: "jsval \<Rightarrow> bool" where
  "is_string (JStr _) = True"
| "is_string _ = False"

definition buildTokenPayload :: "jsval \<Rightarrow> jsval \<Rightarrow> jsval \<Rightarrow> jsobj" where
  "buildTokenPayload model maxTokens options =
     (if \<not> truthy maxTokens \<or> \<not> is_number maxTokens then []
      else if truthy (get_prop options ''forceLegacyMaxTokens'') then [(''max_tokens'', maxTokens)]
      else if isGpt5Model model then [(''max_completion_tokens'', maxTokens)]
      else [(''max_tokens'', maxTokens)])"

definition buildResponsesTokenPayload :: "jsval \<Rightarrow> jsobj" where
  "buildResponsesTokenPayload maxTokens =
     (if \<not> truthy maxTokens \<or> \<not> is_number maxTokens then []
      else [(''max_output_tokens'', maxTokens)])"

definition buildTemperaturePayload :: "jsval \<Rightarrow> jsval \<Rightarrow> jsobj" where
  "buildTemperaturePayload model temperature =
     (if \<not> is_number temperature then []
      else if isGpt5Model model then []
      else [(''temperature'', temperature)])"

definition normalizeResponsesRole :: "jsval \<Rightarrow> jsval" where
  "normalizeResponsesRole role =
     (if role = JStr ''assistant'' \<or> role = JStr ''system'' \<or> role = JStr ''developer''
      then role else JStr ''user'')"

text \<open>\<open>normalizeResponsesContentPart\<close>: \<open>None\<close> is the \<open>null\<close> it returns.\<close>

definition input_text :: "jsval \<Rightarrow> jsval" where
  "input_text t = JObj [(''type'', JStr ''input_text''), (''text'', t)]"

definition input_image :: "jsval \<Rightarrow> jsval" where
  "input_image u = JObj [(''type'', JStr ''input_image''), (''image_url'', u)]"

definition image_url_of :: "jsval \<Rightarrow> jsval" where
  "image_url_of part =
     (let u = get_prop part ''image_url'' in
      if is_string u then u
      else if u = JNull \<or> u = JUndefined then JUndefined
      else get_prop u ''url'')"

definition normalizeResponsesContentPart :: "jsval \<Rightarrow> jsval option" where
  "normalizeResponsesContentPart part =
     (if is_string part then Some (input_text part)
      else if \<not> truthy part \<or> \<not> typeof_object part then None
      else if get_prop part ''type'' = JStr ''text'' \<and> is_string (get_prop part ''text'')
        then Some (input_text (get_prop part ''text''))
      else if get_prop part ''type'' = JStr ''input_text'' \<and> is_string (get_prop part ''text'')
        then Some (input_text (get_prop part ''text''))
      else if get_prop part ''type'' = JStr ''image_url'' \<and> is_string (image_url_of part)
              \<and> image_url_of part \<noteq> JStr []
        then Some (input_image (image_url_of part))
      else if get_prop part ''type'' = JStr ''input_image''
              \<and> is_string (get_prop part ''image_url'')
        then Some (input_image (get_prop part ''image_url''))
      else None)"

definition content_array :: "jsval \<Rightarrow> jsval list" where
  "content_array rawContent = (case rawContent of JArr xs _ \<Rightarrow> xs | _ \<Rightarrow> [rawContent])"

definition responses_message :: "jsval \<Rightarrow> jsval" where
  "responses_message message =
     (let content = List.map_filter normalizeResponsesContentPart
                      (content_array (get_prop message ''content''));
          content = (if content = [] then [input_text (JStr [])] else content)
      in JObj [(''role'', normalizeResponsesRole (get_prop message ''role'')),
               (''content'', JArr content [])])"

definition convertMessagesToResponsesInput :: "jsval \<Rightarrow> jsval \<Rightarrow> jsval list" where
  "convertMessagesToResponsesInput model messages =
     map responses_message
       (filter (\<lambda>message. truthy message \<and> typeof_object message)
          (normalizeMessagesForModel model messages))"

text \<open>
  The options of \<open>createStreamingLLM\<close> and \<open>createLLM\<close>, with the defaults of their
  destructuring (a default replaces \<open>undefined\<close> only).
\<close>

record llm_opts =
  apiKey :: jsval
  model :: jsval
  temperature :: jsval
  maxTokens :: jsval
  usePortkey :: jsval
  portkeyVirtualKey :: jsval
  reasoningEffort :: jsval

definition or_default :: "jsval \<Rightarrow> jsval \<Rightarrow> jsval" where
  "or_default v d = (if v = JUndefined then d else v)"

definition opt_model :: "llm_opts \<Rightarrow> jsval" where
  "opt_model opts = or_default (model opts) (JStr ''gpt-4.1'')"

definition opt_temperature :: "llm_opts \<Rightarrow> jsval" where
  "opt_temperature opts = or_default (temperature opts) (JNumber (Num (7 / 10)))"

definition opt_maxTokens :: "llm_opts \<Rightarrow> jsval" where
  "opt_maxTokens opts = or_default (maxTokens opts) (JNumber (Num 2048))"

text \<open>
  The request bodies \<open>streamChat\<close> hands to \<open>JSON.stringify\<close>: the responses dialect of
  the direct route, and the chat-completions dialect of the Portkey route. The reasoning
  payload is computed on both routes and spread into the first only.
\<close>

definition responses_body :: "llm_opts \<Rightarrow> jsval \<Rightarrow> jsobj" where
  "responses_body opts messages =
     (let reasoningPayload = buildReasoningPayload (opt_model opts) (reasoningEffort opts);
          temperaturePayload = buildTemperaturePayload (opt_model opts) (opt_temperature opts);
          responsesInput = convertMessagesToResponsesInput (opt_model opts) messages;
          tokenPayload = buildResponsesTokenPayload (opt_maxTokens opts)
      in obj_set ''stream'' (JBool True)
           (spread (spread (spread
              [(''model'', opt_model opts), (''input'', JArr responsesInput [])]
              temperaturePayload) tokenPayload) reasoningPayload))"

definition chat_body :: "llm_opts \<Rightarrow> jsval \<Rightarrow> jsobj" where
  "chat_body opts messages =
     (let temperaturePayload = buildTemperaturePayload (opt_model opts) (opt_temperature opts);
          normalizedMessages = normalizeMessagesForModel (opt_model opts) messages;
          tokenPayload = buildTokenPayload (opt_model opts) (opt_maxTokens opts)
                           (JObj [(''forceLegacyMaxTokens'', JBool True)])
      in obj_set ''stream'' (JBool True)
           (spread (spread
              [(''model'', opt_model opts), (''messages'', JArr normalizedMessages [])]
              temperaturePayload) tokenPayload))"

definition streamChat_body :: "llm_opts \<Rightarrow> jsval \<Rightarrow> jsobj" where
  "streamChat_body opts messages =
     (if \<not> truthy (usePortkey opts) then responses_body opts messages
      else chat_body opts messages)"

text \<open>
  A message the rewriting applies to: an object (or array) whose \<open>role\<close> is
  \<open>system\<close>.
\<close>

definition is_system_message :: "jsval \<Rightarrow> bool" where
  "is_system_message m =
     (truthy m \<and> typeof_object m \<and> get_prop m ''role'' = JStr ''system'')"

section \<open>Session orchestrator (AskService)\<close>

text \<open>
  The state record of the service. Time stamps are milliseconds, as \<open>Date.now()\<close>
  gives them.
\<close>

record ask_state =
  isVisible :: bool
  isLoading :: bool
  isStreaming :: bool
  currentQuestion :: string
  currentResponse :: string
  showTextInput :: bool
  voiceDraft :: string
  voiceSpeaker :: string
  voiceDraftTimestamp :: int

definition initial_state :: ask_state where
  "initial_state = \<lparr>isVisible = False, isLoading = False, isStreaming = False,
     currentQuestion = [], currentResponse = [], showTextInput = True,
     voiceDraft = [], voiceSpeaker = [], voiceDraftTimestamp = 0\<rparr>"

definition VOICE_DRAFT_MAX_AGE_MS :: int where
  "VOICE_DRAFT_MAX_AGE_MS = 10 * 60 * 1000"

text \<open>
  \<open>setVoiceDraft\<close> and \<open>_resolveEffectivePrompt\<close>; \<open>now\<close> is the value of
  \<open>Date.now()\<close> at the call, and the speaker is a string or missing (\<open>None\<close>).
\<close>

definition setVoiceDraft :: "int \<Rightarrow> string option \<Rightarrow> jsval \<Rightarrow> ask_state \<Rightarrow> ask_state" where
  "setVoiceDraft now speaker text st =
     (let draft = (case text of JStr s \<Rightarrow> trim s | _ \<Rightarrow> []) in
      if draft = [] then st
      else st\<lparr>voiceDraft := draft,
              voiceSpeaker := (case speaker of None \<Rightarrow> ''Me''
                                | Some s \<Rightarrow> if s \<noteq> [] then s else ''Me''),
              voiceDraftTimestamp := now\<rparr>)"

definition resolveEffectivePrompt :: "ask_state \<Rightarrow> int \<Rightarrow> jsval \<Rightarrow> string" where
  "resolveEffectivePrompt st now userPrompt =
     (let typedPrompt = (case userPrompt of JStr s \<Rightarrow> trim s | _ \<Rightarrow> []) in
      if typedPrompt \<noteq> [] then typedPrompt
      else
        let draft = trim (voiceDraft st);
            draftAgeMs = now - voiceDraftTimestamp st
        in if draft \<noteq> [] \<and> draftAgeMs \<le> VOICE_DRAFT_MAX_AGE_MS then draft else [])"

text \<open>The first lines of \<open>sendMessage\<close>: the request put to the model.\<close>

definition GENERIC_REQUEST :: string where
  "GENERIC_REQUEST = ''Analyze the current screen and provide the most relevant help right now.''"

definition userRequest :: "ask_state \<Rightarrow> int \<Rightarrow> jsval \<Rightarrow> string" where
  "userRequest st now userPrompt =
     (let effectivePrompt = resolveEffectivePrompt st now userPrompt in
      if effectivePrompt \<noteq> [] then effectivePrompt else GENERIC_REQUEST)"

text \<open>
  \<open>_formatConversationForPrompt\<close>. \<open>None\<close> is a missing list (\<open>null\<close>);
  \<open>slice(-30)\<close> keeps the last thirty entries, \<open>join\<close> puts a line feed between them.
\<close>

fun join :: "string \<Rightarrow> string list \<Rightarrow> string" where
  "join sep [] = []"
| "join sep [x] = x"
| "join sep (x # y # ys) = x @ sep @ join sep (y # ys)"

definition slice_last :: "nat \<Rightarrow> 'a list \<Rightarrow> 'a list" where
  "slice_last n xs = drop (length xs - n) xs"

definition formatConversationForPrompt :: "string list option \<Rightarrow> string" where
  "formatConversationForPrompt conversationTexts =
     (case conversationTexts of
        None \<Rightarrow> ''No conversation history available.''
      | Some texts \<Rightarrow>
          if length texts = 0 then ''No conversation history available.''
          else join [CHR 0x0A] (slice_last 30 texts))"

text \<open>
  The output-token ceiling of \<open>sendMessage\<close>. \<open>configuredMaxTokens\<close> is the number
  \<open>Number(appSettings?.maxTokens)\<close>, which is \<open>NaN\<close> when the setting is missing;
  \<open>reasoningEffort\<close> is what the settings service returned.
\<close>

definition defaultMinTokens :: "jsval \<Rightarrow> jsval \<Rightarrow> rat" where
  "defaultMinTokens mdl effort =
     (let isGpt5 = (case mdl of JStr m \<Rightarrow> startsWith (toLowerCase m) ''gpt-5'' | _ \<Rightarrow> False);
          reasoningIsHigh = (effort = JStr ''high'' \<or> effort = JStr ''xhigh'')
      in if isGpt5 \<and> reasoningIsHigh then 8192 else 4096)"

definition effectiveMaxTokens :: "jsval \<Rightarrow> jsval \<Rightarrow> jsnum \<Rightarrow> jsnum" where
  "effectiveMaxTokens mdl effort configuredMaxTokens =
     (case configuredMaxTokens of
        Num c \<Rightarrow> if c > 0 then Num (max c (defaultMinTokens mdl effort))
                 else Num (defaultMinTokens mdl effort)
      | _ \<Rightarrow> Num (defaultMinTokens mdl effort))"

text \<open>\<open>_isMultimodalError\<close>, on the \<open>message\<close> of the error (\<open>None\<close>: it has none).\<close>

definition isMultimodalError :: "string option \<Rightarrow> bool" where
  "isMultimodalError message =
     (let errorMessage = (case message of None \<Rightarrow> [] | Some m \<Rightarrow> toLowerCase m) in
      str_includes errorMessage ''vision'' \<or>
      str_includes errorMessage ''image'' \<or>
      str_includes errorMessage ''multimodal'' \<or>
      str_includes errorMessage ''unsupported'' \<or>
      str_includes errorMessage ''image_url'' \<or>
      str_includes errorMessage ''400'' \<or>
      str_includes errorMessage ''invalid'' \<or>
      str_includes errorMessage ''not supported'')"

text \<open>No typed prompt: \<open>userPrompt\<close> is not a string, or is blank.\<close>

definition no_typed_prompt :: "jsval \<Rightarrow> bool" where
  "no_typed_prompt userPrompt = (case userPrompt of JStr s \<Rightarrow> trim s = [] | _ \<Rightarrow> True)"

section \<open>Realtime transcription session\<close>

text \<open>
  \<open>ws.onmessage\<close> of \<open>createSTT\<close>. \<open>JSON_parse\<close> is the runtime's \<open>JSON.parse\<close>,
  \<open>None\<close> where it throws; \<open>has_onmessage\<close> tells whether the caller gave an
  \<open>onmessage\<close> callback. The result lists the arguments of the calls of that callback.
\<close>

fun set_prop :: "jsval \<Rightarrow> string \<Rightarrow> jsval \<Rightarrow> jsval" where
  "set_prop (JObj ps) k v = JObj (obj_set k v ps)"
| "set_prop (JArr xs ps) k v = JArr xs (obj_set k v ps)"
| "set_prop x k v = x"

definition ws_onmessage :: "(string \<Rightarrow> jsval option) \<Rightarrow> bool \<Rightarrow> string \<Rightarrow> jsval list" where
  "ws_onmessage JSON_parse has_onmessage event_data =
     (if event_data = [] \<or> event_data = ''null'' \<or> event_data = ''[DONE]'' then []
      else case JSON_parse event_data of
          None \<Rightarrow> []
        | Some msg \<Rightarrow>
            if \<not> truthy msg \<or> \<not> typeof_object msg then []
            else let tagged = set_prop msg ''provider'' (JStr ''openai'')
              in if has_onmessage then [tagged] else [])"

section \<open>Stream decoding (AskService)\<close>

text \<open>\<open>x?.[0]\<close>: the first element of an array, the property \<open>0\<close> of an object.\<close>

fun idx0 :: "jsval \<Rightarrow> jsval" where
  "idx0 (JArr xs ps) = (case xs of [] \<Rightarrow> JUndefined | x # _ \<Rightarrow> x)"
| "idx0 (JObj ps) = lookup ps ''0''"
| "idx0 (JStr s) = (case s of [] \<Rightarrow> JUndefined | c # _ \<Rightarrow> JStr [c])"
| "idx0 _ = JUndefined"

fun str_of :: "jsval \<Rightarrow> string" where
  "str_of (JStr s) = s"
| "str_of _ = []"

text \<open>The callback that \<open>_extractTokenFromStreamEvent\<close> maps over a content array.\<close>

definition delta_part_text :: "jsval \<Rightarrow> string" where
  "delta_part_text part =
     (if is_string part then str_of part
      else if \<not> truthy part \<or> \<not> typeof_object part then []
      else if is_string (get_prop part ''text'') then str_of (get_prop part ''text'')
      else if is_string (get_prop part ''delta'') then str_of (get_prop part ''delta'')
      else if truthy (get_prop part ''text'')
              \<and> is_string (get_prop (get_prop part ''text'') ''value'')
        then str_of (get_prop (get_prop part ''text'') ''value'')
      else [])"

definition extractTokenFromStreamEvent :: "jsval \<Rightarrow> string" where
  "extractTokenFromStreamEvent eventPayload =
     (if \<not> truthy eventPayload \<or> \<not> typeof_object eventPayload then []
      else if is_string (get_prop eventPayload ''delta'')
        then str_of (get_prop eventPayload ''delta'')
      else if get_prop eventPayload ''type'' = JStr ''response.output_text.delta''
              \<and> is_string (get_prop eventPayload ''delta'')
        then str_of (get_prop eventPayload ''delta'')
      else if get_prop eventPayload ''type'' = JStr ''response.content_part.added''
              \<and> is_string (get_prop (get_prop eventPayload ''part'') ''text'')
        then str_of (get_prop (get_prop eventPayload ''part'') ''text'')
      else if get_prop eventPayload ''type'' = JStr ''response.content_part.delta''
              \<and> is_string (get_prop eventPayload ''delta'')
        then str_of (get_prop eventPayload ''delta'')
      else if get_prop eventPayload ''type'' = JStr ''response.content_part.delta''
              \<and> is_string (get_prop (get_prop eventPayload ''delta'') ''text'')
        then str_of (get_prop (get_prop eventPayload ''delta'') ''text'')
      else
        let content =
              get_prop (get_prop (idx0 (get_prop eventPayload ''choices'')) ''delta'') ''content''
        in case content of
             JStr s \<Rightarrow> s
           | JArr parts _ \<Rightarrow> concat (map delta_part_text parts)
           | _ \<Rightarrow> [])"

text \<open>The two callbacks of \<open>_extractCompletedTextFromStreamEvent\<close>.\<close>

definition output_text_part :: "jsval \<Rightarrow> string" where
  "output_text_part part =
     (if is_string part then str_of part
      else if \<not> truthy part \<or> \<not> typeof_object part then []
      else if is_string (get_prop part ''text'') then str_of (get_prop part ''text'')
      else [])"

definition output_content_part :: "jsval \<Rightarrow> string" where
  "output_content_part part =
     (if \<not> truthy part \<or> \<not> typeof_object part then []
      else if is_string (get_prop part ''text'') then str_of (get_prop part ''text'')
      else if truthy (get_prop part ''text'')
              \<and> is_string (get_prop (get_prop part ''text'') ''value'')
        then str_of (get_prop (get_prop part ''text'') ''value'')
      else [])"

definition item_content :: "jsval \<Rightarrow> jsval list" where
  "item_content item = (case get_prop item ''content'' of JArr xs _ \<Rightarrow> xs | _ \<Rightarrow> [])"

definition extractCompletedTextFromStreamEvent :: "jsval \<Rightarrow> string" where
  "extractCompletedTextFromStreamEvent eventPayload =
     (if \<not> truthy eventPayload \<or> \<not> typeof_object eventPayload then []
      else
        let response = get_prop eventPayload ''response'' in
        if \<not> truthy response \<or> \<not> typeof_object response then []
        else case get_prop response ''output_text'' of
            JStr s \<Rightarrow> trim s
          | JArr parts _ \<Rightarrow> trim (concat (map output_text_part parts))
          | _ \<Rightarrow>
              let output = (case get_prop response ''output'' of JArr xs _ \<Rightarrow> xs | _ \<Rightarrow> [])
              in trim (concat (map output_content_part (concat (map item_content output)))))"

text \<open>
  \<open>_extractErrorFromStreamEvent\<close>. The result is the value \<open>new Error\<close> is given;
  the empty string says there is no error.
\<close>

definition or_else :: "jsval \<Rightarrow> jsval \<Rightarrow> jsval" where
  "or_else v d = (if truthy v then v else d)"

definition extractErrorFromStreamEvent :: "jsval \<Rightarrow> jsval" where
  "extractErrorFromStreamEvent eventPayload =
     (if \<not> truthy eventPayload \<or> \<not> typeof_object eventPayload then JStr []
      else if get_prop eventPayload ''type'' = JStr ''error''
        then or_else (get_prop (get_prop eventPayload ''error'') ''message'')
               (JStr ''Unknown streaming error'')
      else if get_prop eventPayload ''type'' = JStr ''response.failed''
        then or_else (get_prop (get_prop (get_prop eventPayload ''response'') ''error'') ''message'')
               (JStr ''Response failed'')
      else JStr [])"

section \<open>Stream processing (AskService._processStream)\<close>

text \<open>
  What the function does to the outside, in order: a broadcast of the state, the
  \<open>ask-response-stream-error\<close> event, a call of \<open>askRepository.addAiMessage\<close>, a
  line on the console.
\<close>

datatype stream_failure =
    DecodedError jsval
  | ReadFailure "string option"

record ai_message =
  msg_sessionId :: nat
  msg_role :: string
  msg_content :: string
  msg_model :: jsval

datatype console = LogCancelled | LogStreamError | LogSaved | LogSaveFailed

datatype effect =
    Broadcast ask_state
  | StreamErrorEvent stream_failure
  | AddAiMessage ai_message
  | Console console

text \<open>
  The reader: the chunks its \<open>read()\<close> yields, already decoded (the bytes of the text;
  the decoder is in streaming mode, so the text of the chunks is the text of the stream),
  and how it ends: \<open>done\<close>, or a \<open>read()\<close> that throws.
\<close>

datatype read_end = Done | ReadThrows "string option"

record reader =
  chunks :: "string list"
  ending :: read_end

text \<open>The variables of the function: its three locals, the state, and the effects so far.\<close>

record stream_vars =
  fullResponse :: string
  sseBuffer :: string
  completedResponseText :: string
  svc_state :: ask_state
  effects :: "effect list"

text \<open>\<open>s.split('\n')\<close>: never empty, one more piece than there are line feeds.\<close>

fun split_on :: "char \<Rightarrow> string \<Rightarrow> string list" where
  "split_on c [] = [[]]"
| "split_on c (x # xs) =
     (if x = c then [] # split_on c xs
      else case split_on c xs of [] \<Rightarrow> [[x]] | l # ls \<Rightarrow> (x # l) # ls)"

text \<open>
  The body of the \<open>for\<close> loop over the lines of a chunk. \<open>Inl\<close> is a throw (with the
  variables as they stand), \<open>Inr\<close> the variables after the line.
\<close>

definition process_line ::
  "(string \<Rightarrow> jsval option) \<Rightarrow> stream_vars \<Rightarrow> string \<Rightarrow> (stream_failure \<times> stream_vars) + stream_vars"
where
  "process_line JSON_parse vars line =
     (let trimmedLine = trim line in
      if \<not> startsWith trimmedLine ''data:'' then Inr vars
      else
        let data = trim (drop 5 trimmedLine) in
        if data = ''[DONE]'' then Inr vars
        else case JSON_parse data of
            None \<Rightarrow> Inr vars
          | Some json \<Rightarrow>
              let streamError = extractErrorFromStreamEvent json in
              if truthy streamError then Inl (DecodedError streamError, vars)
              else
                let token = extractTokenFromStreamEvent json;
                    vars = (if token \<noteq> []
                      then
                        let full = fullResponse vars @ token;
                            st = (svc_state vars)\<lparr>currentResponse := full\<rparr>
                        in vars\<lparr>fullResponse := full, svc_state := st,
                                effects := effects vars @ [Broadcast st]\<rparr>
                      else vars)
                in if completedResponseText vars = []
                   then Inr (vars\<lparr>completedResponseText :=
                               extractCompletedTextFromStreamEvent json\<rparr>)
                   else Inr vars)"

fun process_lines ::
  "(string \<Rightarrow> jsval option) \<Rightarrow> stream_vars \<Rightarrow> string list \<Rightarrow> (stream_failure \<times> stream_vars) + stream_vars"
where
  "process_lines JSON_parse vars [] = Inr vars"
| "process_lines JSON_parse vars (line # lines) =
     (case process_line JSON_parse vars line of
        Inl thrown \<Rightarrow> Inl thrown
      | Inr vars' \<Rightarrow> process_lines JSON_parse vars' lines)"

text \<open>The \<open>while (true)\<close> loop: one round for each chunk, until \<open>done\<close> or a throw.\<close>

fun read_loop ::
  "(string \<Rightarrow> jsval option) \<Rightarrow> read_end \<Rightarrow> stream_vars \<Rightarrow> string list \<Rightarrow> (stream_failure \<times> stream_vars) + stream_vars"
where
  "read_loop JSON_parse fin vars [] =
     (case fin of Done \<Rightarrow> Inr vars | ReadThrows m \<Rightarrow> Inl (ReadFailure m, vars))"
| "read_loop JSON_parse fin vars (chunk # rest) =
     (let lines = split_on (CHR 0x0A) (sseBuffer vars @ chunk);
          vars = vars\<lparr>sseBuffer := last lines\<rparr>
      in case process_lines JSON_parse vars (butlast lines) of
           Inl thrown \<Rightarrow> Inl thrown
         | Inr vars' \<Rightarrow> read_loop JSON_parse fin vars' rest)"

text \<open>
  The surroundings of one call: \<open>JSON.parse\<close>; whether the window is there when the
  \<open>catch\<close> runs; whether the signal is aborted then; whether \<open>addAiMessage\<close> resolves.
\<close>

record stream_env =
  parse_json :: "string \<Rightarrow> jsval option"
  askWin_alive :: bool
  signal_aborted :: bool
  addAiMessage_ok :: bool

datatype completion = Returned | Threw stream_failure

record stream_result =
  final_state :: ask_state
  trace :: "effect list"
  completion :: completion

text \<open>The \<open>catch\<close> block and the \<open>finally\<close> block, each on the variables it finds.\<close>

definition catch_block :: "stream_env \<Rightarrow> stream_failure \<Rightarrow> stream_vars \<Rightarrow> stream_vars" where
  "catch_block env streamError vars =
     (if signal_aborted env then vars\<lparr>effects := effects vars @ [Console LogCancelled]\<rparr>
      else
        let vars = vars\<lparr>effects := effects vars @ [Console LogStreamError]\<rparr> in
        if askWin_alive env
        then vars\<lparr>effects := effects vars @ [StreamErrorEvent streamError]\<rparr>
        else vars)"

definition final_text :: "stream_vars \<Rightarrow> string" where
  "final_text vars =
     (if fullResponse vars = [] \<and> completedResponseText vars \<noteq> []
      then completedResponseText vars else fullResponse vars)"

definition finally_block :: "stream_env \<Rightarrow> nat \<Rightarrow> jsval \<Rightarrow> stream_vars \<Rightarrow> stream_result" where
  "finally_block env sid assistantModel vars =
     (let full = final_text vars;
          st = (svc_state vars)\<lparr>isStreaming := False, currentResponse := full\<rparr>;
          out = effects vars @ [Broadcast st]
      in if full \<noteq> []
         then
           let saved = AddAiMessage \<lparr>msg_sessionId = sid, msg_role = ''assistant'',
                                     msg_content = full, msg_model = assistantModel\<rparr>
           in \<lparr>final_state = st,
               trace = out @ [saved,
                 Console (if addAiMessage_ok env then LogSaved else LogSaveFailed)],
               completion = Returned\<rparr>
         else \<lparr>final_state = st, trace = out, completion = Returned\<rparr>)"

definition initial_vars :: "ask_state \<Rightarrow> stream_vars" where
  "initial_vars st =
     (let st = st\<lparr>isLoading := False, isStreaming := True\<rparr>
      in \<lparr>fullResponse = [], sseBuffer = [], completedResponseText = [],
          svc_state = st, effects = [Broadcast st]\<rparr>)"

definition try_block ::
  "stream_env \<Rightarrow> reader \<Rightarrow> ask_state \<Rightarrow> (stream_failure \<times> stream_vars) + stream_vars"
where
  "try_block env rd st = read_loop (parse_json env) (ending rd) (initial_vars st) (chunks rd)"

definition processStream ::
  "stream_env \<Rightarrow> reader \<Rightarrow> nat \<Rightarrow> jsval \<Rightarrow> ask_state \<Rightarrow> stream_result"
where
  "processStream env rd sid assistantModel st =
     (let assistantModel = or_default assistantModel (JStr ''unknown'') in
      case try_block env rd st of
        Inr vars \<Rightarrow> finally_block env sid assistantModel vars
      | Inl (streamError, vars) \<Rightarrow>
          finally_block env sid assistantModel (catch_block env streamError vars))"

text \<open>The variables the \<open>try\<close> block leaves, whether it ended or threw.\<close>

fun vars_at_exit :: "(stream_failure \<times> stream_vars) + stream_vars \<Rightarrow> stream_vars" where
  "vars_at_exit (Inr vars) = vars"
| "vars_at_exit (Inl (thrown, vars)) = vars"

text \<open>The calls of \<open>addAiMessage\<close> in a list of effects.\<close>

fun saved_messages :: "effect list \<Rightarrow> ai_message list" where
  "saved_messages [] = []"
| "saved_messages (AddAiMessage m # es) = m # saved_messages es"
| "saved_messages (_ # es) = saved_messages es"

section \<open>The request attempts of sendMessage\<close>

text \<open>
  The part of \<open>sendMessage\<close> from the building of the messages to the end of its inner
  \<open>try\<close>/\<open>catch\<close>. \<open>screenshotBase64\<close> is \<open>None\<close> when the capture failed; the image
  is attached when it is a string that is not empty. What this part catches is what
  \<open>streamChat\<close> throws: \<open>_processStream\<close> catches the failures of its stream itself.
\<close>

definition image_attached :: "string option \<Rightarrow> bool" where
  "image_attached screenshotBase64 =
     (case screenshotBase64 of None \<Rightarrow> False | Some b \<Rightarrow> b \<noteq> [])"

definition build_messages :: "string \<Rightarrow> string \<Rightarrow> string option \<Rightarrow> jsval" where
  "build_messages systemPrompt request screenshotBase64 =
     JArr
       [JObj [(''role'', JStr ''system''), (''content'', JStr systemPrompt)],
        JObj [(''role'', JStr ''user''),
              (''content'',
               JArr ([JObj [(''type'', JStr ''text''),
                            (''text'', JStr (''User Request: '' @ request))]]
                     @ (case screenshotBase64 of
                          None \<Rightarrow> []
                        | Some b \<Rightarrow>
                            if b \<noteq> []
                            then [JObj [(''type'', JStr ''image_url''),
                                        (''image_url'',
                                         JObj [(''url'', JStr (''data:image/jpeg;base64,'' @ b))])]]
                            else []))
                 [])]]
       []"

definition textOnlyMessages :: "string \<Rightarrow> string \<Rightarrow> jsval" where
  "textOnlyMessages systemPrompt request =
     JArr
       [JObj [(''role'', JStr ''system''), (''content'', JStr systemPrompt)],
        JObj [(''role'', JStr ''user''), (''content'', JStr (''User Request: '' @ request))]]
       []"

text \<open>
  The surroundings: \<open>streamChat n messages\<close> is what the \<open>n\<close>-th call of
  \<open>streamingLLM.streamChat\<close> does with these messages, \<open>Inl\<close> the \<open>message\<close> of the
  error it throws and \<open>Inr\<close> the reader of its response; \<open>askWin_there n\<close> tells whether
  the window is there after that call.
\<close>

datatype send_outcome =
    Success
  | WindowUnavailable
  | Propagated "string option"

record attempts_result =
  calls :: "jsval list"
  outcome :: send_outcome
  streamed :: "stream_result option"

definition stream_attempts ::
  "(nat \<Rightarrow> jsval \<Rightarrow> string option + reader) \<Rightarrow> (nat \<Rightarrow> bool) \<Rightarrow> stream_env \<Rightarrow>
   string \<Rightarrow> string \<Rightarrow> string option \<Rightarrow> nat \<Rightarrow> jsval \<Rightarrow> ask_state \<Rightarrow> attempts_result"
where
  "stream_attempts streamChat askWin_there env systemPrompt request screenshotBase64 sid mdl st =
     (let messages = build_messages systemPrompt request screenshotBase64 in
      case streamChat 0 messages of
        Inr rd \<Rightarrow>
          if \<not> askWin_there 0
          then \<lparr>calls = [messages], outcome = WindowUnavailable, streamed = None\<rparr>
          else \<lparr>calls = [messages], outcome = Success,
                streamed = Some (processStream env rd sid mdl st)\<rparr>
      | Inl multimodalError \<Rightarrow>
          if image_attached screenshotBase64 \<and> isMultimodalError multimodalError
          then
            let fallback = textOnlyMessages systemPrompt request in
            case streamChat 1 fallback of
              Inr rd \<Rightarrow>
                if \<not> askWin_there 1
                then \<lparr>calls = [messages, fallback], outcome = WindowUnavailable,
                      streamed = None\<rparr>
                else \<lparr>calls = [messages, fallback], outcome = Success,
                      streamed = Some (processStream env rd sid mdl st)\<rparr>
            | Inl thrown \<Rightarrow>
                \<lparr>calls = [messages, fallback], outcome = Propagated thrown, streamed = None\<rparr>
          else \<lparr>calls = [messages], outcome = Propagated multimodalError, streamed = None\<rparr>)"

text \<open>
  A list of messages carries an image when the content of one of them is an array with a
  part of type \<open>image_url\<close>.
\<close>

definition carries_image :: "jsval \<Rightarrow> bool" where
  "carries_image messages =
     (case messages of
        JArr ms _ \<Rightarrow>
          list_ex (\<lambda>m. case get_prop m ''content'' of
                          JArr parts _ \<Rightarrow>
                            list_ex (\<lambda>p. get_prop p ''type'' = JStr ''image_url'') parts
                        | _ \<Rightarrow> False) ms
      | _ \<Rightarrow> False)"

definition MULTIMODAL_KEYWORDS :: "string list" where
  "MULTIMODAL_KEYWORDS =
     [''vision'', ''image'', ''multimodal'', ''unsupported'', ''image_url'', ''400'',
      ''invalid'', ''not supported'']"

section \<open>Requests in flight (AskService.sendMessage, closeAskWindow)\<close>

text \<open>
  \<open>sendMessage\<close> is asynchronous: it runs until it awaits, and other calls run meanwhile.
  The service is modelled as a machine over the points where a call can be resumed. An
  \<open>AbortController\<close> is a record in a store, addressed by its index; the request of the
  \<open>n\<close>-th call of \<open>sendMessage\<close> has the index \<open>n\<close>, as has the reader of its response.
  The listeners of a controller are the readers its \<open>abort\<close> event cancels.
\<close>

record controller =
  aborted :: bool
  abort_reason :: string
  listeners :: "nat list"

datatype phase = Preparing | Reading | Finished

record request =
  signal :: nat
  phase :: phase
  accumulated :: string
  cancelled :: bool

datatype origin = FromSend nat | FromStart nat | FromToken nat | FromEnd nat | FromError nat
  | FromClose

record service =
  abortController :: "nat option"
  controllers :: "controller list"
  requests :: "request list"
  ask :: ask_state
  broadcasts :: "(origin \<times> ask_state) list"

definition new_service :: service where
  "new_service = \<lparr>abortController = None, controllers = [], requests = [],
     ask = initial_state, broadcasts = []\<rparr>"

text \<open>
  \<open>reader.cancel()\<close>, and \<open>controller.abort(reason)\<close>: the first abort of a controller
  marks its signal and runs the listeners registered by then; a later one does nothing.
\<close>

definition cancel_reader :: "nat \<Rightarrow> request list \<Rightarrow> request list" where
  "cancel_reader r rs = (if r < length rs then rs[r := (rs ! r)\<lparr>cancelled := True\<rparr>] else rs)"

definition abort :: "nat \<Rightarrow> string \<Rightarrow> service \<Rightarrow> service" where
  "abort c reason s =
     (if c < length (controllers s) \<and> \<not> aborted (controllers s ! c)
      then s\<lparr>controllers :=
               (controllers s)[c := (controllers s ! c)\<lparr>aborted := True,
                                                          abort_reason := reason\<rparr>],
             requests := foldr cancel_reader (listeners (controllers s ! c)) (requests s)\<rparr>
      else s)"

definition broadcast :: "origin \<Rightarrow> service \<Rightarrow> service" where
  "broadcast who s = s\<lparr>broadcasts := broadcasts s @ [(who, ask s)]\<rparr>"

text \<open>
  The events. \<open>Send\<close> is a call of \<open>sendMessage\<close>, run to its first \<open>await\<close>.
  \<open>Opened r\<close> resumes request \<open>r\<close> when its \<open>streamChat\<close> has resolved: it takes the
  reader, registers the abort listener on its signal and enters \<open>_processStream\<close>.
  \<open>Failed r\<close> resumes it when \<open>streamChat\<close> has thrown an error that is not retried.
  \<open>Chunk r token\<close> resumes it when \<open>read()\<close> has resolved with a chunk that decodes to
  \<open>token\<close>; a reader that is cancelled yields no chunk. \<open>Ended r\<close> resumes it when
  \<open>read()\<close> has resolved with \<open>done\<close>. \<open>Close\<close> is a call of \<open>closeAskWindow\<close>.
  The window is taken to be there, and of \<open>_processStream\<close> the machine keeps what
  touches the shared state: the broadcast at its start, the broadcast of each token and the
  broadcast at its end, with the text accumulated from the tokens.
\<close>

datatype event =
    Send jsval int
  | Opened nat
  | Failed nat
  | Chunk nat string
  | Ended nat
  | Close

definition send :: "jsval \<Rightarrow> int \<Rightarrow> service \<Rightarrow> service" where
  "send userPrompt now s =
     (let effectivePrompt = resolveEffectivePrompt (ask s) now userPrompt;
          r = length (requests s);
          s = s\<lparr>ask := (ask s)\<lparr>isLoading := True, isStreaming := False,
                   currentQuestion :=
                     (if effectivePrompt \<noteq> [] then effectivePrompt else ''[Screen context]''),
                   currentResponse := [], showTextInput := False\<rparr>\<rparr>;
          s = broadcast (FromSend r) s;
          s = (case abortController s of
                 None \<Rightarrow> s
               | Some c \<Rightarrow> abort c ''New request received.'' s);
          c = length (controllers s)
      in s\<lparr>abortController := Some c,
           controllers := controllers s @ [\<lparr>aborted = False, abort_reason = [], listeners = []\<rparr>],
           requests := requests s @ [\<lparr>signal = c, phase = Preparing, accumulated = [],
                                       cancelled = False\<rparr>]\<rparr>)"

definition opened :: "nat \<Rightarrow> service \<Rightarrow> service" where
  "opened r s =
     (let c = signal (requests s ! r);
          s = s\<lparr>controllers :=
                  (controllers s)[c := (controllers s ! c)\<lparr>listeners :=
                                          listeners (controllers s ! c) @ [r]\<rparr>]\<rparr>;
          s = s\<lparr>ask := (ask s)\<lparr>isLoading := False, isStreaming := True\<rparr>\<rparr>;
          s = broadcast (FromStart r) s
      in s\<lparr>requests := (requests s)[r := (requests s ! r)\<lparr>phase := Reading\<rparr>]\<rparr>)"

definition failed :: "nat \<Rightarrow> service \<Rightarrow> service" where
  "failed r s =
     (let s = s\<lparr>ask := (ask s)\<lparr>isLoading := False, isStreaming := False,
                                  showTextInput := True\<rparr>\<rparr>;
          s = broadcast (FromError r) s
      in s\<lparr>requests := (requests s)[r := (requests s ! r)\<lparr>phase := Finished\<rparr>]\<rparr>)"

definition chunk :: "nat \<Rightarrow> string \<Rightarrow> service \<Rightarrow> service" where
  "chunk r token s =
     (if token \<noteq> []
      then
        let full = accumulated (requests s ! r) @ token;
            s = s\<lparr>requests := (requests s)[r := (requests s ! r)\<lparr>accumulated := full\<rparr>],
                  ask := (ask s)\<lparr>currentResponse := full\<rparr>\<rparr>
        in broadcast (FromToken r) s
      else s)"

definition ended :: "nat \<Rightarrow> service \<Rightarrow> service" where
  "ended r s =
     (let s = s\<lparr>ask := (ask s)\<lparr>isStreaming := False,
                                  currentResponse := accumulated (requests s ! r)\<rparr>\<rparr>;
          s = broadcast (FromEnd r) s
      in s\<lparr>requests := (requests s)[r := (requests s ! r)\<lparr>phase := Finished\<rparr>]\<rparr>)"

definition closeAskWindow :: "service \<Rightarrow> service" where
  "closeAskWindow s =
     (let s = (case abortController s of
                 None \<Rightarrow> s
               | Some c \<Rightarrow> (abort c ''Window closed by user'' s)\<lparr>abortController := None\<rparr>);
          s = s\<lparr>ask := \<lparr>isVisible = False, isLoading = False, isStreaming = False,
                          currentQuestion = [], currentResponse = [], showTextInput = True,
                          voiceDraft = voiceDraft (ask s), voiceSpeaker = voiceSpeaker (ask s),
                          voiceDraftTimestamp = voiceDraftTimestamp (ask s)\<rparr>\<rparr>
      in broadcast FromClose s)"

text \<open>One event, \<open>None\<close> when it cannot happen in the state; and a run of events.\<close>

definition in_phase :: "nat \<Rightarrow> phase \<Rightarrow> service \<Rightarrow> bool" where
  "in_phase r p s = (r < length (requests s) \<and> phase (requests s ! r) = p)"

fun step :: "event \<Rightarrow> service \<Rightarrow> service option" where
  "step (Send userPrompt now) s = Some (send userPrompt now s)"
| "step (Opened r) s = (if in_phase r Preparing s then Some (opened r s) else None)"
| "step (Failed r) s = (if in_phase r Preparing s then Some (failed r s) else None)"
| "step (Chunk r token) s =
     (if in_phase r Reading s \<and> \<not> cancelled (requests s ! r) then Some (chunk r token s)
      else None)"
| "step (Ended r) s = (if in_phase r Reading s then Some (ended r s) else None)"
| "step Close s = Some (closeAskWindow s)"

fun run :: "event list \<Rightarrow> service \<Rightarrow> service option" where
  "run [] s = Some s"
| "run (e # es) s = (case step e s of None \<Rightarrow> None | Some s' \<Rightarrow> run es s')"

text \<open>The controllers that are not aborted, by index.\<close>

definition live_controllers :: "service \<Rightarrow> nat list" where
  "live_controllers s = filter (\<lambda>c. \<not> aborted (controllers s ! c)) [0..<length (controllers s)]"

text \<open>
  The aborted flags of the store, and the invariant of the slot: the controller in the slot
  is the only one that is not aborted.
\<close>

definition flags :: "service \<Rightarrow> bool list" where
  "flags s = map aborted (controllers s)"

definition one_live :: "nat option \<Rightarrow> bool list \<Rightarrow> bool" where
  "one_live slot fl =
     (fl = map (\<lambda>c. slot \<noteq> Some c) [0..<length fl]
      \<and> (case slot of None \<Rightarrow> True | Some c \<Rightarrow> c < length fl))"

section \<open>Concrete inputs\<close>

definition gpt5_opts :: llm_opts where
  "gpt5_opts = \<lparr>apiKey = JStr ''sk-test'', model = JStr ''GPT-5-mini'',
     temperature = JNumber (Num (7 / 10)), maxTokens = JNumber (Num 8192),
     usePortkey = JBool False, portkeyVirtualKey = JUndefined,
     reasoningEffort = JStr ''X-High''\<rparr>"

definition gpt4_opts :: llm_opts where
  "gpt4_opts = \<lparr>apiKey = JStr ''sk-test'', model = JStr ''gpt-4.1'',
     temperature = JNumber (Num (7 / 10)), maxTokens = JNumber (Num 4096),
     usePortkey = JBool False, portkeyVirtualKey = JUndefined,
     reasoningEffort = JStr ''high''\<rparr>"

definition relay_opts :: llm_opts where
  "relay_opts = gpt5_opts\<lparr>usePortkey := JBool True\<rparr>"

definition sample_messages :: "jsval list" where
  "sample_messages =
     [JObj [(''role'', JStr ''system''), (''content'', JStr ''You are helpful.'')],
      JObj [(''role'', JStr ''user''), (''content'', JStr ''hello'')]]"

definition draft_state :: ask_state where
  "draft_state = setVoiceDraft 1000 (Some ''Them'') (JStr '' what is a monad? '') initial_state"

text \<open>A parser that knows four texts, for the concrete frames below.\<close>

definition sample_parse :: "string \<Rightarrow> jsval option" where
  "sample_parse s =
     (if s = ''{}'' then Some (JObj [])
      else if s = ''[]'' then Some (JArr [] [])
      else if s = ''42'' then Some (JNumber (Num 42))
      else if s = '' null '' then Some JNull
      else None)"

text \<open>
  A stand-in for \<open>JSON.parse\<close> on three kinds of text: \<open>E\<close> is an error event, a text
  that starts with \<open>C\<close> a completed response with the rest as its output text, any other
  text a delta with that text.
\<close>

definition toy_parse :: "string \<Rightarrow> jsval option" where
  "toy_parse s =
     (if s = ''E'' then Some (JObj [(''type'', JStr ''error''),
                                   (''error'', JObj [(''message'', JStr ''overloaded'')])])
      else if startsWith s ''C''
        then Some (JObj [(''type'', JStr ''response.completed''),
                         (''response'', JObj [(''output_text'', JStr (drop 1 s))])])
      else if s = ''?'' then None
      else Some (JObj [(''delta'', JStr s)]))"

definition toy_env :: stream_env where
  "toy_env = \<lparr>parse_json = toy_parse, askWin_alive = True, signal_aborted = False,
     addAiMessage_ok = True\<rparr>"

definition hello_reader :: reader where
  "hello_reader = \<lparr>chunks = [''data: Hel'' @ [CHR 0x0A, CHR 0x0A] @ ''data: l'',
                              ''o'' @ [CHR 0x0A, CHR 0x0A] @ ''data: [DONE]'' @ [CHR 0x0A, CHR 0x0A]],
                    ending = Done\<rparr>"

definition failing_reader :: reader where
  "failing_reader = \<lparr>chunks = [''data: Hel'' @ [CHR 0x0A] @ ''data: E'' @ [CHR 0x0A] @ ''data: lo''
                                 @ [CHR 0x0A]],
                      ending = Done\<rparr>"

definition snapshot_reader :: reader where
  "snapshot_reader = \<lparr>chunks = [''data: CHello'' @ [CHR 0x0A]], ending = ReadThrows (Some ''reset'')\<rparr>"

definition empty_reader :: reader where
  "empty_reader = \<lparr>chunks = [''data: ?'' @ [CHR 0x0A]], ending = Done\<rparr>"

definition failing_db_env :: stream_env where
  "failing_db_env = toy_env\<lparr>addAiMessage_ok := False\<rparr>"

text \<open>
  A provider that rejects images: a request that carries one fails with a 400, any other
  is answered with the stream of \<open>hello_reader\<close>. And a provider that is out of reach.
\<close>

definition text_only_provider :: "nat \<Rightarrow> jsval \<Rightarrow> string option + reader" where
  "text_only_provider n messages =
     (if carries_image messages
      then Inl (Some ''OpenAI API error: 400 Bad Request - Image input is not supported'')
      else Inr hello_reader)"

definition unreachable_provider :: "nat \<Rightarrow> jsval \<Rightarrow> string option + reader" where
  "unreachable_provider n messages = Inl (Some ''fetch failed'')"

definition rejecting_provider :: "nat \<Rightarrow> jsval \<Rightarrow> string option + reader" where
  "rejecting_provider n messages = Inl (Some ''OpenAI API error: 400 Bad Request'')"

section \<open>Properties of the provider payload adapter\<close>

lemmas str_defs = toLowerCase_def lower_char_def startsWith_def

lemma strip_leading_None: "strip_one ws s = None \<Longrightarrow> strip_leading ws s = s"
  by (subst strip_leading.simps) simp

lemma strip_leading_Some:
  "strip_one ws s = Some rest \<Longrightarrow> strip_leading ws s = strip_leading ws rest"
  by (subst strip_leading.simps) simp

lemmas trim_defs = trim_def trimStart_def trimEnd_def strip_leading_None strip_leading_Some
  strip_one_def WHITE_SPACE_def

lemma map_of_obj_set:
  "map_of (obj_set k v ps) k' = (if k' = k then Some v else map_of ps k')"
  by (induction ps) auto

lemma spread_Nil: "spread a [] = a"
  by (simp add: spread_def)

lemma spread_single: "spread a [(k, v)] = obj_set k v a"
  by (simp add: spread_def)

lemma has_key_obj_set: "has_key (obj_set k v ps) k' = (k' = k \<or> has_key ps k')"
  by (simp add: has_key_def map_of_obj_set)

lemma lookup_obj_set: "lookup (obj_set k v ps) k' = (if k' = k then v else lookup ps k')"
  by (simp add: lookup_def map_of_obj_set)

subsection \<open>The effort normalizations\<close>

lemma candidate_of_allowed:
  assumes "c \<in> set [''none'', ''low'', ''medium'', ''high'', ''xhigh'']"
  shows "effort_candidate (JStr c) = c"
proof -
  have "effort_candidate (JStr ''none'') = ''none''" "effort_candidate (JStr ''low'') = ''low''"
    "effort_candidate (JStr ''medium'') = ''medium''"
    "effort_candidate (JStr ''high'') = ''high''" "effort_candidate (JStr ''xhigh'') = ''xhigh''"
    by code_simp+
  with assms show ?thesis by auto
qed

lemma normalize_range:
  "normalizeReasoningEffort v = Some s \<Longrightarrow>
   s \<in> set [''none'', ''low'', ''medium'', ''high'', ''xhigh'']"
  by (auto simp: normalizeReasoningEffort_def Let_def split: if_splits)

lemma normalize_truthy: "normalizeReasoningEffort v = Some s \<Longrightarrow> s \<noteq> []"
  by (auto dest: normalize_range)

lemma normalize_allowed:
  "c \<in> set [''none'', ''low'', ''medium'', ''high'', ''xhigh''] \<Longrightarrow>
   normalizeReasoningEffort (JStr c) = Some c"
  using candidate_of_allowed [of c] by (simp add: normalizeReasoningEffort_def Let_def) auto

lemma settings_normalize_range:
  "settings_normalizeReasoningEffort v \<in> set [''none'', ''low'', ''medium'', ''high'', ''xhigh'']"
  by (auto simp: settings_normalizeReasoningEffort_def REASONING_EFFORT_VALUES_def Let_def)

lemma settings_normalize_allowed:
  "c \<in> set [''none'', ''low'', ''medium'', ''high'', ''xhigh''] \<Longrightarrow>
   settings_normalizeReasoningEffort (JStr c) = c"
  using candidate_of_allowed [of c]
  by (simp add: settings_normalizeReasoningEffort_def REASONING_EFFORT_VALUES_def Let_def) auto

lemma normalize_idem:
  "normalizeReasoningEffort (effort_value (normalizeReasoningEffort v)) =
   normalizeReasoningEffort v"
proof (cases "normalizeReasoningEffort v")
  case None
  then show ?thesis by (simp add: normalizeReasoningEffort_def)
next
  case (Some s)
  then show ?thesis using normalize_allowed [OF normalize_range [OF Some]] by simp
qed

lemma buildReasoningPayload_eq:
  "buildReasoningPayload m e =
     (case normalizeReasoningEffort e of
        None \<Rightarrow> []
      | Some s \<Rightarrow> if isGpt5Model m then [(''reasoning'', JObj [(''effort'', JStr s)])] else [])"
  by (auto simp: buildReasoningPayload_def Let_def dest: normalize_truthy split: option.splits)

subsection \<open>The request bodies, key by key\<close>

lemma forced_token_payload:
  "buildTokenPayload m mt (JObj [(''forceLegacyMaxTokens'', JBool True)]) =
     (if truthy mt \<and> is_number mt then [(''max_tokens'', mt)] else [])"
  by (simp add: buildTokenPayload_def lookup_def)

lemmas body_simps = buildReasoningPayload_eq buildTemperaturePayload_def
  buildResponsesTokenPayload_def forced_token_payload Let_def spread_Nil spread_single

lemma responses_body_temperature:
  "lookup (responses_body opts messages) ''temperature'' =
     (if is_number (opt_temperature opts) \<and> \<not> isGpt5Model (opt_model opts)
      then opt_temperature opts else JUndefined)"
  by (simp add: responses_body_def body_simps lookup_obj_set split: option.splits)
    (simp add: lookup_def)

lemma responses_body_has_temperature:
  "has_key (responses_body opts messages) ''temperature'' =
     (is_number (opt_temperature opts) \<and> \<not> isGpt5Model (opt_model opts))"
  by (simp add: responses_body_def body_simps has_key_obj_set split: option.splits)
    (simp add: has_key_def)

lemma chat_body_temperature:
  "lookup (chat_body opts messages) ''temperature'' =
     (if is_number (opt_temperature opts) \<and> \<not> isGpt5Model (opt_model opts)
      then opt_temperature opts else JUndefined)"
  by (simp add: chat_body_def body_simps lookup_obj_set) (simp add: lookup_def)

lemma chat_body_has_temperature:
  "has_key (chat_body opts messages) ''temperature'' =
     (is_number (opt_temperature opts) \<and> \<not> isGpt5Model (opt_model opts))"
  by (simp add: chat_body_def body_simps has_key_obj_set) (simp add: has_key_def)

lemma responses_body_has_reasoning:
  "has_key (responses_body opts messages) ''reasoning'' =
     (isGpt5Model (opt_model opts) \<and> normalizeReasoningEffort (reasoningEffort opts) \<noteq> None)"
  by (simp add: responses_body_def body_simps has_key_obj_set split: option.splits)
    (auto simp add: has_key_def)

lemma chat_body_has_reasoning: "\<not> has_key (chat_body opts messages) ''reasoning''"
  by (simp add: chat_body_def body_simps has_key_obj_set) (simp add: has_key_def)

lemma responses_body_tokens:
  "lookup (responses_body opts messages) ''max_output_tokens'' =
     (if truthy (opt_maxTokens opts) \<and> is_number (opt_maxTokens opts)
      then opt_maxTokens opts else JUndefined)"
  by (simp add: responses_body_def body_simps lookup_obj_set split: option.splits)
    (simp add: lookup_def)

lemma responses_body_no_legacy:
  "\<not> has_key (responses_body opts messages) ''max_tokens''"
  "\<not> has_key (responses_body opts messages) ''max_completion_tokens''"
  by (simp_all add: responses_body_def body_simps has_key_obj_set split: option.splits)
    (simp_all add: has_key_def)

lemma chat_body_tokens:
  "lookup (chat_body opts messages) ''max_tokens'' =
     (if truthy (opt_maxTokens opts) \<and> is_number (opt_maxTokens opts)
      then opt_maxTokens opts else JUndefined)"
  by (simp add: chat_body_def body_simps lookup_obj_set) (simp add: lookup_def)

lemma chat_body_no_completion:
  "\<not> has_key (chat_body opts messages) ''max_completion_tokens''"
  "\<not> has_key (chat_body opts messages) ''max_output_tokens''"
  by (simp_all add: chat_body_def body_simps has_key_obj_set) (simp_all add: has_key_def)

lemma streamChat_body_has_temperature:
  "has_key (streamChat_body opts messages) ''temperature'' =
     (is_number (opt_temperature opts) \<and> \<not> isGpt5Model (opt_model opts))"
  by (simp add: streamChat_body_def responses_body_has_temperature chat_body_has_temperature)

lemma streamChat_body_temperature:
  "lookup (streamChat_body opts messages) ''temperature'' =
     (if is_number (opt_temperature opts) \<and> \<not> isGpt5Model (opt_model opts)
      then opt_temperature opts else JUndefined)"
  by (simp add: streamChat_body_def responses_body_temperature chat_body_temperature)

lemma streamChat_body_has_reasoning:
  "has_key (streamChat_body opts messages) ''reasoning'' =
     (\<not> truthy (usePortkey opts) \<and> isGpt5Model (opt_model opts)
      \<and> normalizeReasoningEffort (reasoningEffort opts) \<noteq> None)"
  by (simp add: streamChat_body_def responses_body_has_reasoning chat_body_has_reasoning)

subsection \<open>The role rewriting\<close>

lemma rewrite_system_role_rel:
  "if is_system_message x then get_prop (rewrite_system_role x) ''role'' = JStr ''developer''
   else rewrite_system_role x = x"
  by (auto simp add: is_system_message_def rewrite_system_role_def lookup_obj_set)

lemma normalizeMessages_gpt5:
  "isGpt5Model mdl \<Longrightarrow>
   list_all2 (\<lambda>x y. if is_system_message x then get_prop y ''role'' = JStr ''developer''
                     else y = x)
     msgs (normalizeMessagesForModel mdl (JArr msgs ps))"
  using rewrite_system_role_rel by (simp add: list_all2_conv_all_nth)

lemma sample_models:
  "isGpt5Model (JStr ''GPT-5-mini'')" "\<not> isGpt5Model (JStr ''gpt-4.1'')"
  by (simp_all add: str_defs)

lemma gpt5_opts_model: "isGpt5Model (opt_model gpt5_opts)"
  by (simp add: gpt5_opts_def opt_model_def or_default_def str_defs)

lemma gpt4_opts_model: "\<not> isGpt5Model (opt_model gpt4_opts)"
  by (simp add: gpt4_opts_def opt_model_def or_default_def str_defs)

lemma relay_opts_model: "isGpt5Model (opt_model relay_opts)"
  by (simp add: relay_opts_def gpt5_opts_def opt_model_def or_default_def str_defs)

text \<open>
  C3. The gpt-5 family (a model identifier that starts with \<open>gpt-5\<close>, whatever its case)
  gates three behaviours. (1) For such a model \<open>normalizeMessagesForModel\<close> returns every
  message in place, a message with role \<open>system\<close> now with role \<open>developer\<close> and every
  other one unchanged; for any other model it returns the messages as they are. (2) The
  request body of either dialect has no \<open>temperature\<close> for such a model, and carries a
  numeric temperature for any other. (3) The body carries \<open>reasoning\<close> exactly on the
  direct route, for such a model, when the effort normalizes to a value;
  \<open>buildReasoningPayload\<close> is non-empty exactly for such a model with such an effort.
\<close>

theorem gpt5_family_gates:
  "(isGpt5Model mdl \<longrightarrow>
      list_all2 (\<lambda>x y. if is_system_message x then get_prop y ''role'' = JStr ''developer''
                        else y = x)
        msgs (normalizeMessagesForModel mdl (JArr msgs ps)))
   \<and> (\<not> isGpt5Model mdl \<longrightarrow> normalizeMessagesForModel mdl (JArr msgs ps) = msgs)
   \<and> (isGpt5Model (opt_model opts) \<longrightarrow>
        \<not> has_key (streamChat_body opts messages) ''temperature'')
   \<and> (\<not> isGpt5Model (opt_model opts) \<and> is_number (opt_temperature opts) \<longrightarrow>
        lookup (streamChat_body opts messages) ''temperature'' = opt_temperature opts)
   \<and> (has_key (streamChat_body opts messages) ''reasoning'' \<longleftrightarrow>
        \<not> truthy (usePortkey opts) \<and> isGpt5Model (opt_model opts)
        \<and> normalizeReasoningEffort (reasoningEffort opts) \<noteq> None)
   \<and> (buildReasoningPayload mdl e \<noteq> [] \<longleftrightarrow>
        isGpt5Model mdl \<and> normalizeReasoningEffort e \<noteq> None)"
proof -
  have "buildReasoningPayload mdl e \<noteq> [] \<longleftrightarrow>
        isGpt5Model mdl \<and> normalizeReasoningEffort e \<noteq> None"
    by (simp add: buildReasoningPayload_eq split: option.splits)
  moreover have "isGpt5Model mdl \<longrightarrow>
      list_all2 (\<lambda>x y. if is_system_message x then get_prop y ''role'' = JStr ''developer''
                        else y = x)
        msgs (normalizeMessagesForModel mdl (JArr msgs ps))"
    using normalizeMessages_gpt5 by blast
  moreover have "\<not> isGpt5Model mdl \<longrightarrow> normalizeMessagesForModel mdl (JArr msgs ps) = msgs"
    by simp
  ultimately show ?thesis
    by (simp only: streamChat_body_has_temperature streamChat_body_temperature
        streamChat_body_has_reasoning) simp
qed

theorem gpt5_family_gates_witness:
  "isGpt5Model (JStr ''GPT-5-mini'')
   \<and> normalizeMessagesForModel (JStr ''GPT-5-mini'') (JArr sample_messages []) =
       [JObj [(''role'', JStr ''developer''), (''content'', JStr ''You are helpful.'')],
        JObj [(''role'', JStr ''user''), (''content'', JStr ''hello'')]]
   \<and> \<not> isGpt5Model (JStr ''gpt-4.1'')
   \<and> normalizeMessagesForModel (JStr ''gpt-4.1'') (JArr sample_messages []) = sample_messages
   \<and> \<not> has_key (streamChat_body gpt5_opts (JArr sample_messages [])) ''temperature''
   \<and> lookup (streamChat_body gpt4_opts (JArr sample_messages [])) ''temperature'' =
       JNumber (Num (7 / 10))
   \<and> has_key (streamChat_body gpt5_opts (JArr sample_messages [])) ''reasoning''
   \<and> \<not> has_key (streamChat_body gpt4_opts (JArr sample_messages [])) ''reasoning''"
proof -
  have "normalizeReasoningEffort (JStr ''X-High'') = Some ''xhigh''"
    by code_simp
  then have n5: "normalizeReasoningEffort (reasoningEffort gpt5_opts) \<noteq> None"
    by (simp add: gpt5_opts_def)
  have t4: "is_number (opt_temperature gpt4_opts)"
    "opt_temperature gpt4_opts = JNumber (Num (7 / 10))"
    by (simp_all add: gpt4_opts_def opt_temperature_def or_default_def)
  have p5: "\<not> truthy (usePortkey gpt5_opts)"
    by (simp add: gpt5_opts_def)
  have m5: "normalizeMessagesForModel (JStr ''GPT-5-mini'') (JArr sample_messages []) =
       [JObj [(''role'', JStr ''developer''), (''content'', JStr ''You are helpful.'')],
        JObj [(''role'', JStr ''user''), (''content'', JStr ''hello'')]]"
    by (simp add: str_defs sample_messages_def rewrite_system_role_def spread_def lookup_def)
  note a = gpt5_family_gates [where mdl = "JStr ''gpt-4.1''" and msgs = sample_messages
      and ps = "[]" and opts = gpt5_opts and messages = "JArr sample_messages []" and e = JNull]
  note b = gpt5_family_gates [where mdl = "JStr ''GPT-5-mini''" and msgs = sample_messages
      and ps = "[]" and opts = gpt4_opts and messages = "JArr sample_messages []" and e = JNull]
  from a sample_models(2) gpt5_opts_model n5 p5 have
    "normalizeMessagesForModel (JStr ''gpt-4.1'') (JArr sample_messages []) = sample_messages"
    "\<not> has_key (streamChat_body gpt5_opts (JArr sample_messages [])) ''temperature''"
    "has_key (streamChat_body gpt5_opts (JArr sample_messages [])) ''reasoning''"
    by blast+
  moreover from b gpt4_opts_model t4 have
    "lookup (streamChat_body gpt4_opts (JArr sample_messages [])) ''temperature'' =
       JNumber (Num (7 / 10))"
    "\<not> has_key (streamChat_body gpt4_opts (JArr sample_messages [])) ''reasoning''"
    by auto
  ultimately show ?thesis using sample_models m5 by blast
qed

lemma effectiveMaxTokens_positive:
  "\<exists>r. effectiveMaxTokens mdl effort configured = Num r \<and> 0 < r"
  by (cases configured) (auto simp add: effectiveMaxTokens_def defaultMinTokens_def Let_def)

text \<open>
  C4. Which field carries the token limit. Given a limit (a number other than \<open>0\<close> and
  \<open>NaN\<close>), the responses dialect puts it under \<open>max_output_tokens\<close>; the
  chat-completions payload puts it under \<open>max_tokens\<close> when the legacy field is forced,
  and otherwise under \<open>max_completion_tokens\<close> for the gpt-5 family and \<open>max_tokens\<close>
  for any other model. Without a limit both payloads are empty. The body of the direct
  route never has \<open>max_tokens\<close> or \<open>max_completion_tokens\<close>; the body of the Portkey
  route, which forces the legacy field, carries the limit under \<open>max_tokens\<close> for every
  model and never has \<open>max_completion_tokens\<close>. The ceiling \<open>sendMessage\<close> computes
  and the default of a missing \<open>maxTokens\<close> are such limits.
\<close>

theorem token_limit_field_selection:
  "(truthy mt \<and> is_number mt \<longrightarrow>
      buildResponsesTokenPayload mt = [(''max_output_tokens'', mt)]
      \<and> buildTokenPayload mdl mt options =
          (if truthy (get_prop options ''forceLegacyMaxTokens'') then [(''max_tokens'', mt)]
           else if isGpt5Model mdl then [(''max_completion_tokens'', mt)]
           else [(''max_tokens'', mt)]))
   \<and> (\<not> (truthy mt \<and> is_number mt) \<longrightarrow>
        buildResponsesTokenPayload mt = [] \<and> buildTokenPayload mdl mt options = [])
   \<and> (\<not> truthy (usePortkey opts) \<longrightarrow>
        \<not> has_key (streamChat_body opts messages) ''max_tokens''
        \<and> \<not> has_key (streamChat_body opts messages) ''max_completion_tokens''
        \<and> lookup (streamChat_body opts messages) ''max_output_tokens'' =
            (if truthy (opt_maxTokens opts) \<and> is_number (opt_maxTokens opts)
             then opt_maxTokens opts else JUndefined))
   \<and> (truthy (usePortkey opts) \<longrightarrow>
        \<not> has_key (streamChat_body opts messages) ''max_completion_tokens''
        \<and> \<not> has_key (streamChat_body opts messages) ''max_output_tokens''
        \<and> lookup (streamChat_body opts messages) ''max_tokens'' =
            (if truthy (opt_maxTokens opts) \<and> is_number (opt_maxTokens opts)
             then opt_maxTokens opts else JUndefined))
   \<and> truthy (JNumber (effectiveMaxTokens mdl effort configured))
   \<and> is_number (JNumber (effectiveMaxTokens mdl effort configured))
   \<and> truthy (or_default JUndefined (JNumber (Num 2048)))"
proof -
  have "truthy mt \<and> is_number mt \<longrightarrow>
      buildResponsesTokenPayload mt = [(''max_output_tokens'', mt)]
      \<and> buildTokenPayload mdl mt options =
          (if truthy (get_prop options ''forceLegacyMaxTokens'') then [(''max_tokens'', mt)]
           else if isGpt5Model mdl then [(''max_completion_tokens'', mt)]
           else [(''max_tokens'', mt)])"
    by (simp add: buildResponsesTokenPayload_def buildTokenPayload_def)
  moreover have "\<not> (truthy mt \<and> is_number mt) \<longrightarrow>
        buildResponsesTokenPayload mt = [] \<and> buildTokenPayload mdl mt options = []"
    by (simp add: buildResponsesTokenPayload_def buildTokenPayload_def)
  moreover have "\<not> truthy (usePortkey opts) \<longrightarrow>
        \<not> has_key (streamChat_body opts messages) ''max_tokens''
        \<and> \<not> has_key (streamChat_body opts messages) ''max_completion_tokens''
        \<and> lookup (streamChat_body opts messages) ''max_output_tokens'' =
            (if truthy (opt_maxTokens opts) \<and> is_number (opt_maxTokens opts)
             then opt_maxTokens opts else JUndefined)"
    using responses_body_no_legacy [of opts messages]
    by (simp add: streamChat_body_def responses_body_tokens)
  moreover have "truthy (usePortkey opts) \<longrightarrow>
        \<not> has_key (streamChat_body opts messages) ''max_completion_tokens''
        \<and> \<not> has_key (streamChat_body opts messages) ''max_output_tokens''
        \<and> lookup (streamChat_body opts messages) ''max_tokens'' =
            (if truthy (opt_maxTokens opts) \<and> is_number (opt_maxTokens opts)
             then opt_maxTokens opts else JUndefined)"
    using chat_body_no_completion [of opts messages]
    by (simp add: streamChat_body_def chat_body_tokens)
  moreover have "truthy (JNumber (effectiveMaxTokens mdl effort configured))"
    using effectiveMaxTokens_positive [of mdl effort configured] by auto
  moreover have "truthy (or_default JUndefined (JNumber (Num 2048)))"
    by (simp add: or_default_def)
  ultimately show ?thesis by simp
qed

theorem token_limit_field_selection_witness:
  "buildResponsesTokenPayload (JNumber (Num 8192)) =
       [(''max_output_tokens'', JNumber (Num 8192))]
   \<and> buildTokenPayload (JStr ''GPT-5-mini'') (JNumber (Num 8192)) (JObj []) =
       [(''max_completion_tokens'', JNumber (Num 8192))]
   \<and> buildTokenPayload (JStr ''gpt-4.1'') (JNumber (Num 8192)) (JObj []) =
       [(''max_tokens'', JNumber (Num 8192))]
   \<and> buildTokenPayload (JStr ''GPT-5-mini'') (JNumber (Num 8192))
         (JObj [(''forceLegacyMaxTokens'', JBool True)]) =
       [(''max_tokens'', JNumber (Num 8192))]
   \<and> buildTokenPayload (JStr ''GPT-5-mini'') (JNumber NaN) (JObj []) = []
   \<and> lookup (streamChat_body gpt5_opts (JArr sample_messages [])) ''max_output_tokens'' =
       JNumber (Num 8192)
   \<and> \<not> has_key (streamChat_body gpt5_opts (JArr sample_messages [])) ''max_tokens''
   \<and> lookup (streamChat_body relay_opts (JArr sample_messages [])) ''max_tokens'' =
       JNumber (Num 8192)
   \<and> \<not> has_key (streamChat_body relay_opts (JArr sample_messages [])) ''max_completion_tokens''"
proof -
  have t: "truthy (JNumber (Num 8192)) \<and> is_number (JNumber (Num 8192))"
    and f: "\<not> (truthy (JNumber NaN) \<and> is_number (JNumber NaN))"
    by simp_all
  have o: "opt_maxTokens gpt5_opts = JNumber (Num 8192)"
    "opt_maxTokens relay_opts = JNumber (Num 8192)"
    by (simp_all add: relay_opts_def gpt5_opts_def opt_maxTokens_def or_default_def)
  have p: "\<not> truthy (usePortkey gpt5_opts)" "truthy (usePortkey relay_opts)"
    by (simp_all add: relay_opts_def gpt5_opts_def)
  have l: "\<not> truthy (get_prop (JObj []) ''forceLegacyMaxTokens'')"
    "truthy (get_prop (JObj [(''forceLegacyMaxTokens'', JBool True)]) ''forceLegacyMaxTokens'')"
    by (simp_all add: lookup_def)
  note a = token_limit_field_selection [where mt = "JNumber (Num 8192)"
      and mdl = "JStr ''GPT-5-mini''" and options = "JObj []" and opts = gpt5_opts
      and messages = "JArr sample_messages []"]
  note b = token_limit_field_selection [where mt = "JNumber (Num 8192)"
      and mdl = "JStr ''gpt-4.1''" and options = "JObj []" and opts = relay_opts
      and messages = "JArr sample_messages []"]
  note c = token_limit_field_selection [where mt = "JNumber (Num 8192)"
      and mdl = "JStr ''GPT-5-mini''"
      and options = "JObj [(''forceLegacyMaxTokens'', JBool True)]"
      and opts = gpt5_opts and messages = "JArr sample_messages []"]
  note d = token_limit_field_selection [where mt = "JNumber NaN"
      and mdl = "JStr ''GPT-5-mini''" and options = "JObj []" and opts = gpt5_opts
      and messages = "JArr sample_messages []"]
  from a t sample_models(1) l(1) o(1) p(1) have
    "buildResponsesTokenPayload (JNumber (Num 8192)) =
       [(''max_output_tokens'', JNumber (Num 8192))]"
    "buildTokenPayload (JStr ''GPT-5-mini'') (JNumber (Num 8192)) (JObj []) =
       [(''max_completion_tokens'', JNumber (Num 8192))]"
    "lookup (streamChat_body gpt5_opts (JArr sample_messages [])) ''max_output_tokens'' =
       JNumber (Num 8192)"
    "\<not> has_key (streamChat_body gpt5_opts (JArr sample_messages [])) ''max_tokens''"
    by simp_all
  moreover from b t sample_models(2) l(1) o(2) p(2) have
    "buildTokenPayload (JStr ''gpt-4.1'') (JNumber (Num 8192)) (JObj []) =
       [(''max_tokens'', JNumber (Num 8192))]"
    "lookup (streamChat_body relay_opts (JArr sample_messages [])) ''max_tokens'' =
       JNumber (Num 8192)"
    "\<not> has_key (streamChat_body relay_opts (JArr sample_messages [])) ''max_completion_tokens''"
    by simp_all
  moreover from c t l(2) have
    "buildTokenPayload (JStr ''GPT-5-mini'') (JNumber (Num 8192))
         (JObj [(''forceLegacyMaxTokens'', JBool True)]) =
       [(''max_tokens'', JNumber (Num 8192))]"
    by simp
  moreover from d f have
    "buildTokenPayload (JStr ''GPT-5-mini'') (JNumber NaN) (JObj []) = []"
    by simp
  ultimately show ?thesis by blast
qed

lemma alias_inputs:
  "normalizeReasoningEffort (JStr ''Minimal'') = Some ''none''"
  "normalizeReasoningEffort (JStr ''MINIMAL'') = Some ''none''"
  "normalizeReasoningEffort (JStr '' minimal '') = Some ''none''"
  "normalizeReasoningEffort (JStr ''x-high'') = Some ''xhigh''"
  "normalizeReasoningEffort (JStr ''x_high'') = Some ''xhigh''"
  "normalizeReasoningEffort (JStr ''x high'') = Some ''xhigh''"
  "settings_normalizeReasoningEffort (JStr ''Minimal'') = ''none''"
  "settings_normalizeReasoningEffort (JStr ''MINIMAL'') = ''none''"
  "settings_normalizeReasoningEffort (JStr '' minimal '') = ''none''"
  "settings_normalizeReasoningEffort (JStr ''x-high'') = ''xhigh''"
  "settings_normalizeReasoningEffort (JStr ''x_high'') = ''xhigh''"
  "settings_normalizeReasoningEffort (JStr ''x high'') = ''xhigh''"
  by code_simp+

lemma padded_inputs:
  "normalizeReasoningEffort (JStr ([CHR 0xC2, CHR 0xA0] @ ''minimal'' @ [CHR 0xC2, CHR 0xA0])) =
     Some ''none''"
  "settings_normalizeReasoningEffort (JStr ([CHR 0xE2, CHR 0x80, CHR 0x83] @ ''high'')) = ''high''"
  "normalizeReasoningEffort
     (JStr ([CHR 0xEF, CHR 0xBB, CHR 0xBF, CHR 0x09] @ ''X-High''
            @ [CHR 0xE3, CHR 0x80, CHR 0x80, CHR 0xE2, CHR 0x80, CHR 0xA8, CHR 0x0A])) =
     Some ''xhigh''"
  "settings_normalizeReasoningEffort
     (JStr ([CHR 0xE1, CHR 0x9A, CHR 0x80] @ ''Low''
            @ [CHR 0xE2, CHR 0x80, CHR 0xAF, CHR 0xE2, CHR 0x81, CHR 0x9F])) = ''low''"
  by code_simp+

text \<open>
  C5. Both normalizations are idempotent. In both, \<open>Minimal\<close>, \<open>MINIMAL\<close> and
  \<open> minimal \<close> normalize to \<open>none\<close>, and \<open>x-high\<close>, \<open>x_high\<close> and \<open>x high\<close> to
  \<open>xhigh\<close>; each of \<open>none\<close>, \<open>low\<close>, \<open>medium\<close>, \<open>high\<close>, \<open>xhigh\<close> normalizes to
  itself; what is trimmed includes the white space beyond ASCII (here U+00A0, U+2003,
  U+FEFF, U+3000, U+2028, U+1680, U+202F, U+205F). In general the result depends on the
  trimmed, lower-cased text of the input alone: \<open>minimal\<close> gives \<open>none\<close>, the three
  spellings of \<open>x-high\<close> give \<open>xhigh\<close>, an allowed value gives itself, and any other text,
  or an input that is not a string, gives \<open>null\<close> in the adapter, hence no reasoning
  payload, and \<open>medium\<close> in the settings service.
\<close>

theorem reasoning_effort_normalization:
  "normalizeReasoningEffort (effort_value (normalizeReasoningEffort v)) =
       normalizeReasoningEffort v
   \<and> settings_normalizeReasoningEffort (JStr (settings_normalizeReasoningEffort v)) =
       settings_normalizeReasoningEffort v
   \<and> normalizeReasoningEffort (JStr ''Minimal'') = Some ''none''
   \<and> normalizeReasoningEffort (JStr ''MINIMAL'') = Some ''none''
   \<and> normalizeReasoningEffort (JStr '' minimal '') = Some ''none''
   \<and> normalizeReasoningEffort (JStr ''x-high'') = Some ''xhigh''
   \<and> normalizeReasoningEffort (JStr ''x_high'') = Some ''xhigh''
   \<and> normalizeReasoningEffort (JStr ''x high'') = Some ''xhigh''
   \<and> settings_normalizeReasoningEffort (JStr ''Minimal'') = ''none''
   \<and> settings_normalizeReasoningEffort (JStr ''MINIMAL'') = ''none''
   \<and> settings_normalizeReasoningEffort (JStr '' minimal '') = ''none''
   \<and> settings_normalizeReasoningEffort (JStr ''x-high'') = ''xhigh''
   \<and> settings_normalizeReasoningEffort (JStr ''x_high'') = ''xhigh''
   \<and> settings_normalizeReasoningEffort (JStr ''x high'') = ''xhigh''
   \<and> normalizeReasoningEffort
         (JStr ([CHR 0xC2, CHR 0xA0] @ ''minimal'' @ [CHR 0xC2, CHR 0xA0])) = Some ''none''
   \<and> settings_normalizeReasoningEffort (JStr ([CHR 0xE2, CHR 0x80, CHR 0x83] @ ''high'')) =
       ''high''
   \<and> normalizeReasoningEffort
         (JStr ([CHR 0xEF, CHR 0xBB, CHR 0xBF, CHR 0x09] @ ''X-High''
                @ [CHR 0xE3, CHR 0x80, CHR 0x80, CHR 0xE2, CHR 0x80, CHR 0xA8, CHR 0x0A])) =
       Some ''xhigh''
   \<and> settings_normalizeReasoningEffort
         (JStr ([CHR 0xE1, CHR 0x9A, CHR 0x80] @ ''Low''
                @ [CHR 0xE2, CHR 0x80, CHR 0xAF, CHR 0xE2, CHR 0x81, CHR 0x9F])) = ''low''
   \<and> (c \<in> set [''none'', ''low'', ''medium'', ''high'', ''xhigh''] \<longrightarrow>
        normalizeReasoningEffort (JStr c) = Some c
        \<and> settings_normalizeReasoningEffort (JStr c) = c)
   \<and> (effort_candidate v = ''minimal'' \<longrightarrow>
        normalizeReasoningEffort v = Some ''none''
        \<and> settings_normalizeReasoningEffort v = ''none'')
   \<and> (effort_candidate v \<in> set [''x-high'', ''x_high'', ''x high''] \<longrightarrow>
        normalizeReasoningEffort v = Some ''xhigh''
        \<and> settings_normalizeReasoningEffort v = ''xhigh'')
   \<and> (effort_candidate v \<in> set [''none'', ''low'', ''medium'', ''high'', ''xhigh''] \<longrightarrow>
        normalizeReasoningEffort v = Some (effort_candidate v)
        \<and> settings_normalizeReasoningEffort v = effort_candidate v)
   \<and> (effort_candidate v \<notin> set [''minimal'', ''x-high'', ''x_high'', ''x high'', ''none'',
                                  ''low'', ''medium'', ''high'', ''xhigh''] \<longrightarrow>
        normalizeReasoningEffort v = None \<and> buildReasoningPayload mdl v = []
        \<and> settings_normalizeReasoningEffort v = ''medium'')
   \<and> (\<not> is_string v \<longrightarrow>
        normalizeReasoningEffort v = None \<and> settings_normalizeReasoningEffort v = ''medium'')"
proof -
  have "settings_normalizeReasoningEffort (JStr (settings_normalizeReasoningEffort v)) =
       settings_normalizeReasoningEffort v"
    using settings_normalize_allowed [OF settings_normalize_range] .
  moreover have "c \<in> set [''none'', ''low'', ''medium'', ''high'', ''xhigh''] \<longrightarrow>
        normalizeReasoningEffort (JStr c) = Some c
        \<and> settings_normalizeReasoningEffort (JStr c) = c"
    using normalize_allowed [of c] settings_normalize_allowed [of c] by blast
  moreover have "effort_candidate v = ''minimal'' \<longrightarrow>
        normalizeReasoningEffort v = Some ''none''
        \<and> settings_normalizeReasoningEffort v = ''none''"
    by (simp add: normalizeReasoningEffort_def settings_normalizeReasoningEffort_def Let_def)
  moreover have "effort_candidate v \<in> set [''x-high'', ''x_high'', ''x high''] \<longrightarrow>
        normalizeReasoningEffort v = Some ''xhigh''
        \<and> settings_normalizeReasoningEffort v = ''xhigh''"
    by (auto simp add: normalizeReasoningEffort_def settings_normalizeReasoningEffort_def
        Let_def)
  moreover have
    "effort_candidate v \<in> set [''none'', ''low'', ''medium'', ''high'', ''xhigh''] \<longrightarrow>
        normalizeReasoningEffort v = Some (effort_candidate v)
        \<and> settings_normalizeReasoningEffort v = effort_candidate v"
    by (auto simp add: normalizeReasoningEffort_def settings_normalizeReasoningEffort_def
        REASONING_EFFORT_VALUES_def Let_def)
  moreover have
    "effort_candidate v \<notin> set [''minimal'', ''x-high'', ''x_high'', ''x high'', ''none'',
                                  ''low'', ''medium'', ''high'', ''xhigh''] \<longrightarrow>
        normalizeReasoningEffort v = None \<and> buildReasoningPayload mdl v = []
        \<and> settings_normalizeReasoningEffort v = ''medium''"
    by (simp add: normalizeReasoningEffort_def settings_normalizeReasoningEffort_def
        buildReasoningPayload_def REASONING_EFFORT_VALUES_def Let_def)
  moreover have "\<not> is_string v \<longrightarrow>
        normalizeReasoningEffort v = None \<and> settings_normalizeReasoningEffort v = ''medium''"
    by (cases v)
      (simp_all add: normalizeReasoningEffort_def settings_normalizeReasoningEffort_def
        REASONING_EFFORT_VALUES_def)
  ultimately show ?thesis
    using normalize_idem [of v] alias_inputs padded_inputs by blast
qed

theorem reasoning_effort_normalization_witness:
  "normalizeReasoningEffort (JStr ''high'') = Some ''high''
   \<and> settings_normalizeReasoningEffort (JStr ''high'') = ''high''
   \<and> normalizeReasoningEffort (JStr '' X_High '') = Some ''xhigh''
   \<and> settings_normalizeReasoningEffort (JStr '' X_High '') = ''xhigh''
   \<and> normalizeReasoningEffort (JStr ''turbo'') = None
   \<and> buildReasoningPayload (JStr ''gpt-5'') (JStr ''turbo'') = []
   \<and> settings_normalizeReasoningEffort (JStr ''turbo'') = ''medium''
   \<and> normalizeReasoningEffort JNull = None
   \<and> settings_normalizeReasoningEffort JNull = ''medium''"
proof -
  have h: "''high'' \<in> set [''none'', ''low'', ''medium'', ''high'', ''xhigh'']"
    by simp
  have "effort_candidate (JStr ''turbo'') = ''turbo''"
    by code_simp
  then have t: "effort_candidate (JStr ''turbo'')
             \<notin> set [''minimal'', ''x-high'', ''x_high'', ''x high'', ''none'',
                     ''low'', ''medium'', ''high'', ''xhigh'']"
    by simp
  have "effort_candidate (JStr '' X_High '') = ''x_high''"
    by code_simp
  then have x: "effort_candidate (JStr '' X_High '') \<in> set [''x-high'', ''x_high'', ''x high'']"
    by simp
  have n: "\<not> is_string JNull" by simp
  note a = reasoning_effort_normalization [where c = "''high''" and v = "JStr ''turbo''"
      and mdl = "JStr ''gpt-5''"]
  note b = reasoning_effort_normalization [where c = "''high''" and v = "JStr '' X_High ''"
      and mdl = "JStr ''gpt-5''"]
  note c = reasoning_effort_normalization [where c = "''high''" and v = JNull
      and mdl = "JStr ''gpt-5''"]
  from h a have "normalizeReasoningEffort (JStr ''high'') = Some ''high''
   \<and> settings_normalizeReasoningEffort (JStr ''high'') = ''high''"
    by blast
  moreover from t a have "normalizeReasoningEffort (JStr ''turbo'') = None
   \<and> buildReasoningPayload (JStr ''gpt-5'') (JStr ''turbo'') = []
   \<and> settings_normalizeReasoningEffort (JStr ''turbo'') = ''medium''"
    by blast
  moreover from x b have "normalizeReasoningEffort (JStr '' X_High '') = Some ''xhigh''
   \<and> settings_normalizeReasoningEffort (JStr '' X_High '') = ''xhigh''"
    by blast
  moreover from n c have "normalizeReasoningEffort JNull = None
   \<and> settings_normalizeReasoningEffort JNull = ''medium''"
    by blast
  ultimately show ?thesis by blast
qed

section \<open>Properties of the session orchestrator\<close>

lemma slice_last_append:
  "length recent = n \<Longrightarrow> slice_last n (older @ recent) = recent"
  by (simp add: slice_last_def)

text \<open>
  C10. \<open>_formatConversationForPrompt\<close> returns the fixed text for a missing or empty
  list; for any other list it joins, with line feeds, the last thirty entries (all of them
  when there are fewer), so whatever precedes the last thirty entries has no effect on the
  prompt.
\<close>

theorem conversation_history_bounded:
  "formatConversationForPrompt None = ''No conversation history available.''
   \<and> formatConversationForPrompt (Some []) = ''No conversation history available.''
   \<and> (texts \<noteq> [] \<longrightarrow>
        formatConversationForPrompt (Some texts) =
          join [CHR 0x0A] (drop (length texts - 30) texts)
        \<and> length (drop (length texts - 30) texts) = min 30 (length texts))
   \<and> (length recent = 30 \<longrightarrow>
        formatConversationForPrompt (Some (older @ recent)) = join [CHR 0x0A] recent)"
proof -
  have "length recent = 30 \<longrightarrow>
        formatConversationForPrompt (Some (older @ recent)) = join [CHR 0x0A] recent"
    by (auto simp add: formatConversationForPrompt_def slice_last_append)
  moreover have "texts \<noteq> [] \<longrightarrow>
        formatConversationForPrompt (Some texts) =
          join [CHR 0x0A] (drop (length texts - 30) texts)
        \<and> length (drop (length texts - 30) texts) = min 30 (length texts)"
    by (auto simp add: formatConversationForPrompt_def slice_last_def)
  ultimately show ?thesis
    by (simp add: formatConversationForPrompt_def)
qed

theorem conversation_history_bounded_witness:
  "formatConversationForPrompt (Some [''me: hi'', ''them: hello'']) =
     ''me: hi'' @ [CHR 0x0A] @ ''them: hello''
   \<and> formatConversationForPrompt (Some (''dropped'' # map to_dec [0..<30])) =
       join [CHR 0x0A] (map to_dec [0..<30])"
proof -
  have "[''me: hi'', ''them: hello''] \<noteq> []" by simp
  with conversation_history_bounded [where texts = "[''me: hi'', ''them: hello'']"
      and recent = "map to_dec [0..<30]" and older = "[''dropped'']"]
  have "formatConversationForPrompt (Some [''me: hi'', ''them: hello'']) =
     ''me: hi'' @ [CHR 0x0A] @ ''them: hello''"
    by simp
  moreover have "length (map to_dec [0..<30]) = 30" by simp
  with conversation_history_bounded [where texts = "[''me: hi'', ''them: hello'']"
      and recent = "map to_dec [0..<30]" and older = "[''dropped'']"]
  have "formatConversationForPrompt (Some (''dropped'' # map to_dec [0..<30])) =
       join [CHR 0x0A] (map to_dec [0..<30])"
    by simp
  ultimately show ?thesis by blast
qed

lemma defaultMinTokens_eq:
  "defaultMinTokens mdl effort =
     (if isGpt5Model mdl \<and> (effort = JStr ''high'' \<or> effort = JStr ''xhigh'') then 8192 else 4096)"
  by (cases mdl) (simp_all add: defaultMinTokens_def)

text \<open>
  C7. With no configured \<open>maxTokens\<close> (\<open>NaN\<close>) and effort \<open>xhigh\<close> the ceiling is
  8192 for \<open>gpt-5-mini\<close> and 4096 for \<open>gpt-4.1\<close>. The floor is 8192 exactly when the
  model is of the gpt-5 family and the effort is \<open>high\<close> or \<open>xhigh\<close>, and 4096 otherwise;
  a configured value that is finite and positive gives the larger of itself and the floor,
  and any other configured value gives the floor.
\<close>

theorem effective_output_token_ceiling:
  "effectiveMaxTokens (JStr ''gpt-5-mini'') (JStr ''xhigh'') NaN = Num 8192
   \<and> effectiveMaxTokens (JStr ''gpt-4.1'') (JStr ''xhigh'') NaN = Num 4096
   \<and> (defaultMinTokens mdl effort = 8192 \<longleftrightarrow>
        isGpt5Model mdl \<and> (effort = JStr ''high'' \<or> effort = JStr ''xhigh''))
   \<and> (defaultMinTokens mdl effort = 4096 \<longleftrightarrow>
        \<not> (isGpt5Model mdl \<and> (effort = JStr ''high'' \<or> effort = JStr ''xhigh'')))
   \<and> (0 < c \<longrightarrow>
        effectiveMaxTokens mdl effort (Num c) = Num (max c (defaultMinTokens mdl effort)))
   \<and> (\<not> 0 < c \<longrightarrow> effectiveMaxTokens mdl effort (Num c) = Num (defaultMinTokens mdl effort))
   \<and> effectiveMaxTokens mdl effort NaN = Num (defaultMinTokens mdl effort)
   \<and> effectiveMaxTokens mdl effort Infinity = Num (defaultMinTokens mdl effort)
   \<and> effectiveMaxTokens mdl effort NegInfinity = Num (defaultMinTokens mdl effort)"
proof -
  have "effectiveMaxTokens (JStr ''gpt-5-mini'') (JStr ''xhigh'') NaN = Num 8192"
    "effectiveMaxTokens (JStr ''gpt-4.1'') (JStr ''xhigh'') NaN = Num 4096"
    by (simp_all add: effectiveMaxTokens_def defaultMinTokens_def toLowerCase_def
        lower_char_def startsWith_def)
  then show ?thesis
    by (simp add: effectiveMaxTokens_def defaultMinTokens_eq)
qed

theorem effective_output_token_ceiling_witness:
  "effectiveMaxTokens (JStr ''GPT-5.2'') (JStr ''high'') (Num 16000) = Num 16000
   \<and> effectiveMaxTokens (JStr ''GPT-5.2'') (JStr ''high'') (Num 100) = Num 8192
   \<and> effectiveMaxTokens (JStr ''GPT-5.2'') (JStr ''low'') (Num 100) = Num 4096
   \<and> effectiveMaxTokens (JStr ''GPT-5.2'') (JStr ''high'') (Num (- 5)) = Num 8192"
proof -
  have g: "isGpt5Model (JStr ''GPT-5.2'')"
    by (simp add: toLowerCase_def lower_char_def startsWith_def)
  note a = effective_output_token_ceiling [where mdl = "JStr ''GPT-5.2''"
      and effort = "JStr ''high''" and c = 16000]
  note b = effective_output_token_ceiling [where mdl = "JStr ''GPT-5.2''"
      and effort = "JStr ''high''" and c = 100]
  note c = effective_output_token_ceiling [where mdl = "JStr ''GPT-5.2''"
      and effort = "JStr ''low''" and c = 100]
  note d = effective_output_token_ceiling [where mdl = "JStr ''GPT-5.2''"
      and effort = "JStr ''high''" and c = "- 5"]
  have h: "defaultMinTokens (JStr ''GPT-5.2'') (JStr ''high'') = 8192"
    using a g by blast
  have l: "defaultMinTokens (JStr ''GPT-5.2'') (JStr ''low'') = 4096"
    using c by simp
  have "effectiveMaxTokens (JStr ''GPT-5.2'') (JStr ''high'') (Num 16000) = Num 16000"
    using a h by simp
  moreover have "effectiveMaxTokens (JStr ''GPT-5.2'') (JStr ''high'') (Num 100) = Num 8192"
    using b h by simp
  moreover have "effectiveMaxTokens (JStr ''GPT-5.2'') (JStr ''low'') (Num 100) = Num 4096"
    using c l by simp
  moreover have "effectiveMaxTokens (JStr ''GPT-5.2'') (JStr ''high'') (Num (- 5)) = Num 8192"
    using d h by simp
  ultimately show ?thesis by blast
qed

lemma trimmed_prompts:
  "trim '' explain this '' = ''explain this''"
  "trim ''what is a monad?'' = ''what is a monad?''"
  "trim '' what is a monad? '' = ''what is a monad?''"
  "trim [] = []"
  "trim [CHR 0xC2, CHR 0xA0] = []"
  "trim ([CHR 0xC2, CHR 0xA0, CHR 0x20, CHR 0xE2, CHR 0x80, CHR 0x83, CHR 0x09, CHR 0xEF, CHR 0xBB,
          CHR 0xBF]) = []"
  "trim ([CHR 0xC2, CHR 0xA0] @ ''explain this'' @ [CHR 0xE3, CHR 0x80, CHR 0x80]) =
     ''explain this''"
  by code_simp+

lemma setVoiceDraft_blank:
  "setVoiceDraft now speaker (JStr [CHR 0xC2, CHR 0xA0]) st = st"
  "setVoiceDraft now speaker JUndefined st = st"
  by (simp_all add: setVoiceDraft_def trimmed_prompts)

text \<open>
  C6. A typed prompt that is not blank is the effective prompt, trimmed, whatever the voice
  draft, and it is the request. Without one, a draft that is not blank is used exactly
  when its age is at most ten minutes: it is used one millisecond before the boundary and
  not one millisecond after it. When no draft is used the effective prompt is empty and the
  request is the text \<open>Analyze the current screen and provide the most relevant help right
  now.\<close> A prompt is blank when it is not a string or consists of white space, also of
  white space beyond ASCII such as U+00A0: such a prompt is resolved as a missing one is.
\<close>

theorem effective_prompt_resolution:
  "(trim p \<noteq> [] \<longrightarrow>
      resolveEffectivePrompt st now (JStr p) = trim p \<and> userRequest st now (JStr p) = trim p)
   \<and> (no_typed_prompt up \<and> trim (voiceDraft st) \<noteq> [] \<longrightarrow>
        (resolveEffectivePrompt st now up = trim (voiceDraft st) \<longleftrightarrow>
           now - voiceDraftTimestamp st \<le> 10 * 60 * 1000)
        \<and> (resolveEffectivePrompt st now up = [] \<longleftrightarrow>
           \<not> now - voiceDraftTimestamp st \<le> 10 * 60 * 1000))
   \<and> (no_typed_prompt up \<and> trim (voiceDraft st) \<noteq> []
        \<and> now - voiceDraftTimestamp st = 10 * 60 * 1000 - 1 \<longrightarrow>
        userRequest st now up = trim (voiceDraft st))
   \<and> (no_typed_prompt up \<and> now - voiceDraftTimestamp st = 10 * 60 * 1000 + 1 \<longrightarrow>
        resolveEffectivePrompt st now up = []
        \<and> userRequest st now up =
            ''Analyze the current screen and provide the most relevant help right now.'')
   \<and> (no_typed_prompt up \<and> trim (voiceDraft st) = [] \<longrightarrow>
        resolveEffectivePrompt st now up = []
        \<and> userRequest st now up =
            ''Analyze the current screen and provide the most relevant help right now.'')
   \<and> no_typed_prompt JUndefined \<and> no_typed_prompt JNull \<and> no_typed_prompt (JStr [])
   \<and> no_typed_prompt (JStr [CHR 0xC2, CHR 0xA0])
   \<and> no_typed_prompt (JStr [CHR 0xC2, CHR 0xA0, CHR 0x20, CHR 0xE2, CHR 0x80, CHR 0x83, CHR 0x09,
                             CHR 0xEF, CHR 0xBB, CHR 0xBF])
   \<and> resolveEffectivePrompt st now (JStr [CHR 0xC2, CHR 0xA0]) =
       resolveEffectivePrompt st now JUndefined
   \<and> resolveEffectivePrompt st now
         (JStr ([CHR 0xC2, CHR 0xA0] @ ''explain this'' @ [CHR 0xE3, CHR 0x80, CHR 0x80])) =
       ''explain this''"
proof -
  have "(trim p \<noteq> [] \<longrightarrow>
      resolveEffectivePrompt st now (JStr p) = trim p \<and> userRequest st now (JStr p) = trim p)
   \<and> (no_typed_prompt up \<and> trim (voiceDraft st) \<noteq> [] \<longrightarrow>
        (resolveEffectivePrompt st now up = trim (voiceDraft st) \<longleftrightarrow>
           now - voiceDraftTimestamp st \<le> 10 * 60 * 1000)
        \<and> (resolveEffectivePrompt st now up = [] \<longleftrightarrow>
           \<not> now - voiceDraftTimestamp st \<le> 10 * 60 * 1000))
   \<and> (no_typed_prompt up \<and> trim (voiceDraft st) \<noteq> []
        \<and> now - voiceDraftTimestamp st = 10 * 60 * 1000 - 1 \<longrightarrow>
        userRequest st now up = trim (voiceDraft st))
   \<and> (no_typed_prompt up \<and> now - voiceDraftTimestamp st = 10 * 60 * 1000 + 1 \<longrightarrow>
        resolveEffectivePrompt st now up = []
        \<and> userRequest st now up =
            ''Analyze the current screen and provide the most relevant help right now.'')
   \<and> (no_typed_prompt up \<and> trim (voiceDraft st) = [] \<longrightarrow>
        resolveEffectivePrompt st now up = []
        \<and> userRequest st now up =
            ''Analyze the current screen and provide the most relevant help right now.'')"
    by (cases up)
      (auto simp add: resolveEffectivePrompt_def userRequest_def no_typed_prompt_def
        VOICE_DRAFT_MAX_AGE_MS_def GENERIC_REQUEST_def Let_def)
  moreover have "no_typed_prompt JUndefined" "no_typed_prompt JNull" "no_typed_prompt (JStr [])"
    "no_typed_prompt (JStr [CHR 0xC2, CHR 0xA0])"
    "no_typed_prompt (JStr [CHR 0xC2, CHR 0xA0, CHR 0x20, CHR 0xE2, CHR 0x80, CHR 0x83, CHR 0x09,
                             CHR 0xEF, CHR 0xBB, CHR 0xBF])"
    by (simp_all add: no_typed_prompt_def trimmed_prompts)
  moreover have "resolveEffectivePrompt st now (JStr [CHR 0xC2, CHR 0xA0]) =
       resolveEffectivePrompt st now JUndefined"
    by (simp add: resolveEffectivePrompt_def trimmed_prompts)
  moreover have "resolveEffectivePrompt st now
         (JStr ([CHR 0xC2, CHR 0xA0] @ ''explain this'' @ [CHR 0xE3, CHR 0x80, CHR 0x80])) =
       ''explain this''"
    using trimmed_prompts(7) by (simp add: resolveEffectivePrompt_def)
  ultimately show ?thesis by blast
qed

lemma draft_state_eq:
  "draft_state = initial_state\<lparr>voiceDraft := ''what is a monad?'', voiceSpeaker := ''Them'',
     voiceDraftTimestamp := 1000\<rparr>"
  by (simp add: draft_state_def setVoiceDraft_def trimmed_prompts)

theorem effective_prompt_resolution_witness:
  "resolveEffectivePrompt draft_state 2000 (JStr '' explain this '') = ''explain this''
   \<and> userRequest draft_state (1000 + 10 * 60 * 1000 - 1) JUndefined = ''what is a monad?''
   \<and> resolveEffectivePrompt draft_state (1000 + 10 * 60 * 1000) (JStr []) = ''what is a monad?''
   \<and> resolveEffectivePrompt draft_state 2000 (JStr [CHR 0xC2, CHR 0xA0]) = ''what is a monad?''
   \<and> userRequest draft_state (1000 + 10 * 60 * 1000 + 1) JUndefined =
       ''Analyze the current screen and provide the most relevant help right now.''
   \<and> userRequest initial_state 2000 JUndefined =
       ''Analyze the current screen and provide the most relevant help right now.''"
proof -
  note t = trimmed_prompts(1,2)
  have d: "voiceDraft draft_state = ''what is a monad?''" "voiceDraftTimestamp draft_state = 1000"
    by (simp_all add: draft_state_eq)
  have i: "trim (voiceDraft initial_state) = []"
    by (simp add: initial_state_def trimmed_prompts)
  have "resolveEffectivePrompt draft_state 2000 (JStr '' explain this '') = ''explain this''"
    using effective_prompt_resolution [where p = "'' explain this ''" and st = draft_state
        and now = 2000 and up = JUndefined] t by simp
  moreover have "userRequest draft_state (1000 + 10 * 60 * 1000 - 1) JUndefined = ''what is a monad?''"
    using effective_prompt_resolution [where p = "[]" and st = draft_state
        and now = "1000 + 10 * 60 * 1000 - 1" and up = JUndefined] t d by simp
  moreover have "resolveEffectivePrompt draft_state (1000 + 10 * 60 * 1000) (JStr []) = ''what is a monad?''"
    using effective_prompt_resolution [where p = "[]" and st = draft_state
        and now = "1000 + 10 * 60 * 1000" and up = "JStr []"] t d by simp
  moreover have "resolveEffectivePrompt draft_state 2000 (JStr [CHR 0xC2, CHR 0xA0]) = ''what is a monad?''"
  proof -
    note e = effective_prompt_resolution [where p = "[]" and st = draft_state
        and now = 2000 and up = "JStr [CHR 0xC2, CHR 0xA0]"]
    from e have n: "no_typed_prompt (JStr [CHR 0xC2, CHR 0xA0])"
      by blast
    from e have "no_typed_prompt (JStr [CHR 0xC2, CHR 0xA0]) \<and> trim (voiceDraft draft_state) \<noteq> []
        \<longrightarrow> (resolveEffectivePrompt draft_state 2000 (JStr [CHR 0xC2, CHR 0xA0]) =
               trim (voiceDraft draft_state) \<longleftrightarrow>
             2000 - voiceDraftTimestamp draft_state \<le> 10 * 60 * 1000)"
      by blast
    with n t d show ?thesis by simp
  qed
  moreover have "userRequest draft_state (1000 + 10 * 60 * 1000 + 1) JUndefined =
       ''Analyze the current screen and provide the most relevant help right now.''"
    using effective_prompt_resolution [where p = "[]" and st = draft_state
        and now = "1000 + 10 * 60 * 1000 + 1" and up = JUndefined] t d by simp
  moreover have "userRequest initial_state 2000 JUndefined =
       ''Analyze the current screen and provide the most relevant help right now.''"
    using effective_prompt_resolution [where p = "[]" and st = initial_state
        and now = 2000 and up = JUndefined] i by simp
  ultimately show ?thesis by blast
qed

section \<open>Properties of the transcription session\<close>

lemma get_set_prop:
  "truthy v \<Longrightarrow> typeof_object v \<Longrightarrow> get_prop (set_prop v k x) k = x"
  by (cases v) (simp_all add: lookup_obj_set)

text \<open>
  C9. An inbound frame that is empty, the text \<open>null\<close> or the marker \<open>[DONE]\<close>
  reaches no callback; nor does a frame that \<open>JSON.parse\<close> rejects, or one that parses
  to something other than an object or array. Every value handed to the \<open>onmessage\<close>
  callback has \<open>provider\<close> set to \<open>openai\<close>, and a frame that passes the filters is
  handed over, so tagged, when the callback exists.
\<close>

theorem transcription_frame_filter:
  "(event_data = [] \<or> event_data = ''null'' \<or> event_data = ''[DONE]'' \<longrightarrow>
      ws_onmessage JSON_parse has_cb event_data = [])
   \<and> (JSON_parse event_data = None \<longrightarrow> ws_onmessage JSON_parse has_cb event_data = [])
   \<and> (JSON_parse event_data = Some v \<and> \<not> (truthy v \<and> typeof_object v) \<longrightarrow>
        ws_onmessage JSON_parse has_cb event_data = [])
   \<and> (\<forall>m \<in> set (ws_onmessage JSON_parse has_cb event_data).
        get_prop m ''provider'' = JStr ''openai'')
   \<and> (event_data \<noteq> [] \<and> event_data \<noteq> ''null'' \<and> event_data \<noteq> ''[DONE]''
        \<and> JSON_parse event_data = Some v \<and> truthy v \<and> typeof_object v \<and> has_cb \<longrightarrow>
        ws_onmessage JSON_parse has_cb event_data = [set_prop v ''provider'' (JStr ''openai'')])"
  by (auto simp add: ws_onmessage_def Let_def get_set_prop split: option.splits)

theorem transcription_frame_filter_witness:
  "ws_onmessage sample_parse True ''null'' = []
   \<and> ws_onmessage sample_parse True ''not json'' = []
   \<and> ws_onmessage sample_parse True ''42'' = []
   \<and> ws_onmessage sample_parse True ''{}'' = [JObj [(''provider'', JStr ''openai'')]]
   \<and> ws_onmessage sample_parse True ''[]'' = [JArr [] [(''provider'', JStr ''openai'')]]
   \<and> get_prop (JArr [] [(''provider'', JStr ''openai'')]) ''provider'' = JStr ''openai''"
proof -
  have p: "sample_parse ''not json'' = None" "sample_parse ''42'' = Some (JNumber (Num 42))"
    "sample_parse ''{}'' = Some (JObj [])" "sample_parse ''[]'' = Some (JArr [] [])"
    by (simp_all add: sample_parse_def)
  have "ws_onmessage sample_parse True ''null'' = []"
    using transcription_frame_filter [where event_data = "''null''" and has_cb = True
        and JSON_parse = sample_parse and v = JNull] by simp
  moreover have "ws_onmessage sample_parse True ''not json'' = []"
    using transcription_frame_filter [where event_data = "''not json''" and has_cb = True
        and JSON_parse = sample_parse and v = JNull] p(1) by blast
  moreover have "ws_onmessage sample_parse True ''42'' = []"
    using transcription_frame_filter [where event_data = "''42''" and has_cb = True
        and JSON_parse = sample_parse and v = "JNumber (Num 42)"] p(2) by simp
  moreover have "ws_onmessage sample_parse True ''{}'' = [JObj [(''provider'', JStr ''openai'')]]"
    using transcription_frame_filter [where event_data = "''{}''" and has_cb = True
        and JSON_parse = sample_parse and v = "JObj []"] p(3) by simp
  moreover have a: "ws_onmessage sample_parse True ''[]'' = [JArr [] [(''provider'', JStr ''openai'')]]"
    using transcription_frame_filter [where event_data = "''[]''" and has_cb = True
        and JSON_parse = sample_parse and v = "JArr [] []"] p(4) by simp
  moreover have "get_prop (JArr [] [(''provider'', JStr ''openai'')]) ''provider'' = JStr ''openai''"
    using transcription_frame_filter [where event_data = "''[]''" and has_cb = True
        and JSON_parse = sample_parse and v = "JArr [] []"] a by simp
  ultimately show ?thesis by blast
qed

section \<open>Properties of the stream processing\<close>

lemma catch_block_keeps:
  "fullResponse (catch_block env e vars) = fullResponse vars"
  "completedResponseText (catch_block env e vars) = completedResponseText vars"
  "svc_state (catch_block env e vars) = svc_state vars"
  by (simp_all add: catch_block_def Let_def)

lemma final_text_catch: "final_text (catch_block env e vars) = final_text vars"
  by (simp add: final_text_def catch_block_keeps)

lemma saved_messages_append:
  "saved_messages (xs @ ys) = saved_messages xs @ saved_messages ys"
  by (induction xs rule: saved_messages.induct) simp_all

lemma process_line_saves:
  "process_line p vars line = Inr vars' \<Longrightarrow>
   saved_messages (effects vars') = saved_messages (effects vars)"
  "process_line p vars line = Inl (e, vars') \<Longrightarrow>
   saved_messages (effects vars') = saved_messages (effects vars)"
  by (auto simp add: process_line_def Let_def saved_messages_append
      split: if_splits option.splits)

lemma process_lines_saves:
  "process_lines p vars lines = Inr vars' \<Longrightarrow>
   saved_messages (effects vars') = saved_messages (effects vars)"
  "process_lines p vars lines = Inl (e, vars') \<Longrightarrow>
   saved_messages (effects vars') = saved_messages (effects vars)"
  by (induction lines arbitrary: vars)
    (auto split: sum.splits dest: process_line_saves)

lemma read_loop_saves:
  "saved_messages (effects (vars_at_exit (read_loop p fin vars cs))) =
   saved_messages (effects vars)"
proof (induction cs arbitrary: vars)
  case Nil
  then show ?case by (cases fin) simp_all
next
  case (Cons c cs)
  show ?case
  proof (cases "process_lines p (vars\<lparr>sseBuffer := last (split_on (CHR 0x0A) (sseBuffer vars @ c))\<rparr>)
                  (butlast (split_on (CHR 0x0A) (sseBuffer vars @ c)))")
    case (Inl thrown)
    then show ?thesis
      using process_lines_saves(2) [of p _ _ "fst thrown" "snd thrown"]
      by (cases thrown) (simp add: Let_def)
  next
    case (Inr vars')
    then show ?thesis
      using process_lines_saves(1) [OF Inr] Cons.IH [of vars']
      by (simp add: Let_def)
  qed
qed

lemma try_block_saves:
  "saved_messages (effects (vars_at_exit (try_block env rd st))) = []"
  by (simp add: try_block_def read_loop_saves initial_vars_def Let_def)

lemma saved_catch:
  "saved_messages (effects (catch_block env e vars)) = saved_messages (effects vars)"
  by (simp add: catch_block_def Let_def saved_messages_append)

lemma finally_block_props:
  "completion (finally_block env sid mdl vars) = Returned"
  "currentResponse (final_state (finally_block env sid mdl vars)) = final_text vars"
  "isStreaming (final_state (finally_block env sid mdl vars)) = False"
  "saved_messages (trace (finally_block env sid mdl vars)) =
     saved_messages (effects vars) @
     (if final_text vars = [] then []
      else [\<lparr>msg_sessionId = sid, msg_role = ''assistant'', msg_content = final_text vars,
              msg_model = mdl\<rparr>])"
  "final_text vars \<noteq> [] \<Longrightarrow> \<not> addAiMessage_ok env \<Longrightarrow>
     last (trace (finally_block env sid mdl vars)) = Console LogSaveFailed"
  by (simp_all add: finally_block_def Let_def saved_messages_append)

text \<open>
  C1. \<open>_processStream\<close> always returns: nothing it catches and no failure of
  \<open>addAiMessage\<close> leaves it as a throw. The response it leaves in the state is the text
  accumulated when the \<open>try\<close> block ended or threw, or the completed-text snapshot when no
  token was accumulated. When that text is empty \<open>addAiMessage\<close> is not called; otherwise
  it is called exactly once, with that text, the session, the role \<open>assistant\<close> and the
  model. When the call fails, the last thing the function does is to log the failure.
\<close>

theorem stream_finalization:
  "completion (processStream env rd sid mdl st) = Returned
   \<and> currentResponse (final_state (processStream env rd sid mdl st)) =
       final_text (vars_at_exit (try_block env rd st))
   \<and> saved_messages (trace (processStream env rd sid mdl st)) =
       (if final_text (vars_at_exit (try_block env rd st)) = [] then []
        else [\<lparr>msg_sessionId = sid, msg_role = ''assistant'',
                msg_content = final_text (vars_at_exit (try_block env rd st)),
                msg_model = or_default mdl (JStr ''unknown'')\<rparr>])
   \<and> (final_text (vars_at_exit (try_block env rd st)) \<noteq> [] \<and> \<not> addAiMessage_ok env \<longrightarrow>
        last (trace (processStream env rd sid mdl st)) = Console LogSaveFailed)"
proof (cases "try_block env rd st")
  case (Inl thrown)
  obtain e vars where t: "thrown = (e, vars)" by (cases thrown)
  have "saved_messages (effects vars) = []"
    using try_block_saves [of env rd st] Inl t by simp
  then show ?thesis
    using Inl t
    by (simp add: processStream_def Let_def finally_block_props final_text_catch saved_catch)
next
  case (Inr vars)
  have "saved_messages (effects vars) = []"
    using try_block_saves [of env rd st] Inr by simp
  then show ?thesis
    using Inr by (simp add: processStream_def Let_def finally_block_props)
qed


lemma toy_runs:
  "final_text (vars_at_exit (try_block toy_env hello_reader initial_state)) = ''Hello''"
  "final_text (vars_at_exit (try_block failing_db_env failing_reader initial_state)) = ''Hel''"
  "final_text (vars_at_exit (try_block toy_env snapshot_reader initial_state)) = ''Hello''"
  "final_text (vars_at_exit (try_block toy_env empty_reader initial_state)) = []"
  by code_simp+

theorem stream_finalization_witness:
  "saved_messages (trace (processStream toy_env hello_reader 7 (JStr ''gpt-5'') initial_state)) =
     [\<lparr>msg_sessionId = 7, msg_role = ''assistant'', msg_content = ''Hello'',
       msg_model = JStr ''gpt-5''\<rparr>]
   \<and> saved_messages
        (trace (processStream failing_db_env failing_reader 7 (JStr ''gpt-5'') initial_state)) =
       [\<lparr>msg_sessionId = 7, msg_role = ''assistant'', msg_content = ''Hel'',
         msg_model = JStr ''gpt-5''\<rparr>]
   \<and> last (trace (processStream failing_db_env failing_reader 7 (JStr ''gpt-5'') initial_state)) =
       Console LogSaveFailed
   \<and> completion (processStream failing_db_env failing_reader 7 (JStr ''gpt-5'') initial_state) =
       Returned
   \<and> saved_messages (trace (processStream toy_env snapshot_reader 7 JUndefined initial_state)) =
       [\<lparr>msg_sessionId = 7, msg_role = ''assistant'', msg_content = ''Hello'',
         msg_model = JStr ''unknown''\<rparr>]
   \<and> saved_messages (trace (processStream toy_env empty_reader 7 (JStr ''gpt-5'') initial_state)) = []"
proof -
  have d: "\<not> addAiMessage_ok failing_db_env"
    by (simp add: failing_db_env_def)
  have o: "or_default (JStr ''gpt-5'') (JStr ''unknown'') = JStr ''gpt-5''"
    "or_default JUndefined (JStr ''unknown'') = JStr ''unknown''"
    by (simp_all add: or_default_def)
  have "saved_messages (trace (processStream toy_env hello_reader 7 (JStr ''gpt-5'') initial_state)) =
     [\<lparr>msg_sessionId = 7, msg_role = ''assistant'', msg_content = ''Hello'',
       msg_model = JStr ''gpt-5''\<rparr>]"
    using stream_finalization [where env = toy_env and rd = hello_reader and sid = 7
        and mdl = "JStr ''gpt-5''" and st = initial_state] toy_runs(1) o by simp
  moreover have "saved_messages
        (trace (processStream failing_db_env failing_reader 7 (JStr ''gpt-5'') initial_state)) =
       [\<lparr>msg_sessionId = 7, msg_role = ''assistant'', msg_content = ''Hel'',
         msg_model = JStr ''gpt-5''\<rparr>]
   \<and> last (trace (processStream failing_db_env failing_reader 7 (JStr ''gpt-5'') initial_state)) =
       Console LogSaveFailed
   \<and> completion (processStream failing_db_env failing_reader 7 (JStr ''gpt-5'') initial_state) =
       Returned"
    using stream_finalization [where env = failing_db_env and rd = failing_reader and sid = 7
        and mdl = "JStr ''gpt-5''" and st = initial_state] toy_runs(2) o d by simp
  moreover have "saved_messages (trace (processStream toy_env snapshot_reader 7 JUndefined initial_state)) =
       [\<lparr>msg_sessionId = 7, msg_role = ''assistant'', msg_content = ''Hello'',
         msg_model = JStr ''unknown''\<rparr>]"
    using stream_finalization [where env = toy_env and rd = snapshot_reader and sid = 7
        and mdl = JUndefined and st = initial_state] toy_runs(3) o by simp
  moreover have "saved_messages (trace (processStream toy_env empty_reader 7 (JStr ''gpt-5'') initial_state)) = []"
    using stream_finalization [where env = toy_env and rd = empty_reader and sid = 7
        and mdl = "JStr ''gpt-5''" and st = initial_state] toy_runs(4) by simp
  ultimately show ?thesis by blast
qed

section \<open>Properties of the request attempts\<close>

lemma startsWith_iff: "startsWith s p \<longleftrightarrow> (\<exists>b. s = p @ b)"
  unfolding startsWith_def by (metis append_eq_conv_conj append_take_drop_id)

lemma str_includes_iff: "str_includes s p \<longleftrightarrow> (\<exists>a b. s = a @ p @ b)"
proof (induction s)
  case Nil
  then show ?case by simp
next
  case (Cons c cs)
  have "(\<exists>a b. c # cs = a @ p @ b) \<longleftrightarrow> (\<exists>b. c # cs = p @ b) \<or> (\<exists>a b. cs = a @ p @ b)"
    by (auto simp add: Cons_eq_append_conv)
  with Cons show ?case by (simp add: startsWith_iff)
qed

lemma isMultimodalError_keywords:
  "isMultimodalError e \<longleftrightarrow>
     (\<exists>k \<in> set MULTIMODAL_KEYWORDS.
        str_includes (case e of None \<Rightarrow> [] | Some m \<Rightarrow> toLowerCase m) k)"
  by (simp add: isMultimodalError_def MULTIMODAL_KEYWORDS_def Let_def)

lemma carries_image_build:
  "carries_image (build_messages sp rq shot) = image_attached shot"
  by (simp add: carries_image_def build_messages_def image_attached_def lookup_def
      split: option.splits)

lemma carries_image_text_only: "\<not> carries_image (textOnlyMessages sp rq)"
  by (simp add: carries_image_def textOnlyMessages_def lookup_def)


lemma fallback_calls:
  "length (calls (stream_attempts streamChat win env sp rq shot sid mdl st)) \<le> 2
   \<and> hd (calls (stream_attempts streamChat win env sp rq shot sid mdl st)) =
       build_messages sp rq shot
   \<and> (length (calls (stream_attempts streamChat win env sp rq shot sid mdl st)) = 2 \<longleftrightarrow>
        image_attached shot
        \<and> (\<exists>e. streamChat 0 (build_messages sp rq shot) = Inl e
              \<and> (\<exists>k \<in> set MULTIMODAL_KEYWORDS.
                    str_includes (case e of None \<Rightarrow> [] | Some m \<Rightarrow> toLowerCase m) k)))
   \<and> (length (calls (stream_attempts streamChat win env sp rq shot sid mdl st)) \<noteq> 2 \<longrightarrow>
        calls (stream_attempts streamChat win env sp rq shot sid mdl st) =
          [build_messages sp rq shot])
   \<and> (length (calls (stream_attempts streamChat win env sp rq shot sid mdl st)) = 2 \<longrightarrow>
        calls (stream_attempts streamChat win env sp rq shot sid mdl st) =
          [build_messages sp rq shot, textOnlyMessages sp rq]
        \<and> \<not> carries_image (textOnlyMessages sp rq))
   \<and> (streamChat 0 (build_messages sp rq shot) = Inl e \<and> \<not> image_attached shot \<longrightarrow>
        \<not> carries_image (build_messages sp rq shot)
        \<and> calls (stream_attempts streamChat win env sp rq shot sid mdl st) =
            [build_messages sp rq shot]
        \<and> outcome (stream_attempts streamChat win env sp rq shot sid mdl st) = Propagated e)
   \<and> (streamChat 0 (build_messages sp rq shot) = Inl e \<and> \<not> isMultimodalError e \<longrightarrow>
        calls (stream_attempts streamChat win env sp rq shot sid mdl st) =
            [build_messages sp rq shot]
        \<and> outcome (stream_attempts streamChat win env sp rq shot sid mdl st) = Propagated e)
   \<and> (streamChat 0 (build_messages sp rq shot) = Inl e \<and> image_attached shot
        \<and> isMultimodalError e \<and> streamChat 1 (textOnlyMessages sp rq) = Inl e' \<longrightarrow>
        outcome (stream_attempts streamChat win env sp rq shot sid mdl st) = Propagated e')"
proof (cases "streamChat 0 (build_messages sp rq shot)")
  case (Inr rd)
  then show ?thesis
    by (simp add: stream_attempts_def Let_def)
next
  case (Inl e0)
  show ?thesis
  proof (cases "image_attached shot \<and> isMultimodalError e0")
    case False
    then show ?thesis
      using Inl
      by (auto simp add: stream_attempts_def Let_def carries_image_build
          isMultimodalError_keywords)
  next
    case True
    then have k: "\<exists>k \<in> set MULTIMODAL_KEYWORDS.
        str_includes (case e0 of None \<Rightarrow> [] | Some m \<Rightarrow> toLowerCase m) k"
      by (simp add: isMultimodalError_keywords)
    show ?thesis
    proof (cases "streamChat 1 (textOnlyMessages sp rq)")
      case (Inl e1)
      with True k \<open>streamChat 0 (build_messages sp rq shot) = Inl e0\<close> show ?thesis
        by (simp add: stream_attempts_def Let_def carries_image_text_only)
    next
      case (Inr rd)
      with True k \<open>streamChat 0 (build_messages sp rq shot) = Inl e0\<close> show ?thesis
        by (simp add: stream_attempts_def Let_def carries_image_text_only)
    qed
  qed
qed


text \<open>
  C8. \<open>sendMessage\<close> calls \<open>streamChat\<close> once or twice, first with the messages it
  built: the system prompt and a user message with the request as a text part, followed by
  the screenshot as an image part when one was captured. There is a second call exactly
  when an image was attached and the first call failed with an error whose message, in
  lower case, includes one of the keywords \<open>vision\<close>, \<open>image\<close>, \<open>multimodal\<close>,
  \<open>unsupported\<close>, \<open>image_url\<close>, \<open>400\<close>, \<open>invalid\<close>, \<open>not supported\<close>. The second
  call is given the system prompt and a user message whose content is the plain text of the
  request; it carries no image. A failure of a request with no image attached, or with a
  message that includes no keyword, is thrown on after that one call, and a failure of the
  second call is thrown on as it is.
\<close>

theorem multimodal_fallback:
  "(length (calls (stream_attempts streamChat win env sp rq shot sid mdl st)) \<le> 2
   \<and> hd (calls (stream_attempts streamChat win env sp rq shot sid mdl st)) =
       build_messages sp rq shot
   \<and> (length (calls (stream_attempts streamChat win env sp rq shot sid mdl st)) = 2 \<longleftrightarrow>
        image_attached shot
        \<and> (\<exists>e. streamChat 0 (build_messages sp rq shot) = Inl e
              \<and> (\<exists>k \<in> set [''vision'', ''image'', ''multimodal'', ''unsupported'',
                              ''image_url'', ''400'', ''invalid'', ''not supported''].
                    str_includes (case e of None \<Rightarrow> [] | Some m \<Rightarrow> toLowerCase m) k)))
   \<and> (length (calls (stream_attempts streamChat win env sp rq shot sid mdl st)) \<noteq> 2 \<longrightarrow>
        calls (stream_attempts streamChat win env sp rq shot sid mdl st) =
          [build_messages sp rq shot])
   \<and> (length (calls (stream_attempts streamChat win env sp rq shot sid mdl st)) = 2 \<longrightarrow>
        calls (stream_attempts streamChat win env sp rq shot sid mdl st) =
          [build_messages sp rq shot, (JArr [JObj [(''role'', JStr ''system''), (''content'', JStr sp)],
                 JObj [(''role'', JStr ''user''),
                       (''content'', JStr (''User Request: '' @ rq))]] [])]
        \<and> \<not> carries_image ((JArr [JObj [(''role'', JStr ''system''), (''content'', JStr sp)],
                 JObj [(''role'', JStr ''user''),
                       (''content'', JStr (''User Request: '' @ rq))]] [])))
   \<and> (streamChat 0 (build_messages sp rq shot) = Inl e \<and> \<not> image_attached shot \<longrightarrow>
        \<not> carries_image (build_messages sp rq shot)
        \<and> calls (stream_attempts streamChat win env sp rq shot sid mdl st) =
            [build_messages sp rq shot]
        \<and> outcome (stream_attempts streamChat win env sp rq shot sid mdl st) = Propagated e)
   \<and> (streamChat 0 (build_messages sp rq shot) = Inl e \<and> \<not> isMultimodalError e \<longrightarrow>
        calls (stream_attempts streamChat win env sp rq shot sid mdl st) =
            [build_messages sp rq shot]
        \<and> outcome (stream_attempts streamChat win env sp rq shot sid mdl st) = Propagated e)
   \<and> (streamChat 0 (build_messages sp rq shot) = Inl e \<and> image_attached shot
        \<and> isMultimodalError e \<and> streamChat 1 ((JArr [JObj [(''role'', JStr ''system''), (''content'', JStr sp)],
                 JObj [(''role'', JStr ''user''),
                       (''content'', JStr (''User Request: '' @ rq))]] [])) = Inl e' \<longrightarrow>
        outcome (stream_attempts streamChat win env sp rq shot sid mdl st) = Propagated e'))
   \<and> (shot = Some b \<and> b \<noteq> [] \<longrightarrow>
        image_attached shot
        \<and> build_messages sp rq shot =
            JArr [JObj [(''role'', JStr ''system''), (''content'', JStr sp)],
                JObj [(''role'', JStr ''user''),
                      (''content'',
                       JArr [JObj [(''type'', JStr ''text''),
                                   (''text'', JStr (''User Request: '' @ rq))],
                             JObj [(''type'', JStr ''image_url''),
                                   (''image_url'',
                                    JObj [(''url'', JStr (''data:image/jpeg;base64,'' @ b))])]]
                         [])]]
            [])
   \<and> (shot = None \<or> shot = Some [] \<longrightarrow>
        \<not> image_attached shot
        \<and> build_messages sp rq shot =
            JArr [JObj [(''role'', JStr ''system''), (''content'', JStr sp)],
                JObj [(''role'', JStr ''user''),
                      (''content'',
                       JArr [JObj [(''type'', JStr ''text''),
                                   (''text'', JStr (''User Request: '' @ rq))]]
                         [])]]
            [])"
proof -
  have "shot = Some b \<and> b \<noteq> [] \<longrightarrow>
        image_attached shot
        \<and> build_messages sp rq shot =
            JArr [JObj [(''role'', JStr ''system''), (''content'', JStr sp)],
                JObj [(''role'', JStr ''user''),
                      (''content'',
                       JArr [JObj [(''type'', JStr ''text''),
                                   (''text'', JStr (''User Request: '' @ rq))],
                             JObj [(''type'', JStr ''image_url''),
                                   (''image_url'',
                                    JObj [(''url'', JStr (''data:image/jpeg;base64,'' @ b))])]]
                         [])]]
            []"
    by (auto simp add: image_attached_def build_messages_def)
  moreover have "shot = None \<or> shot = Some [] \<longrightarrow>
        \<not> image_attached shot
        \<and> build_messages sp rq shot =
            JArr [JObj [(''role'', JStr ''system''), (''content'', JStr sp)],
                JObj [(''role'', JStr ''user''),
                      (''content'',
                       JArr [JObj [(''type'', JStr ''text''),
                                   (''text'', JStr (''User Request: '' @ rq))]]
                         [])]]
            []"
    by (auto simp add: image_attached_def build_messages_def)
  ultimately show ?thesis
    using fallback_calls [of streamChat win env sp rq shot sid mdl st e e',
        unfolded textOnlyMessages_def MULTIMODAL_KEYWORDS_def]
    by blast
qed

lemma sample_errors:
  "isMultimodalError (Some ''OpenAI API error: 400 Bad Request - Image input is not supported'')"
  "isMultimodalError (Some ''OpenAI API error: 400 Bad Request'')"
  "\<not> isMultimodalError (Some ''fetch failed'')"
  by code_simp+

theorem multimodal_fallback_witness:
  "calls (stream_attempts text_only_provider (\<lambda>n. True) toy_env ''You are Glass.'' ''help''
            (Some ''QUJD'') 7 (JStr ''gpt-4.1'') initial_state) =
     [JArr [JObj [(''role'', JStr ''system''), (''content'', JStr ''You are Glass.'')],
            JObj [(''role'', JStr ''user''),
                  (''content'',
                   JArr [JObj [(''type'', JStr ''text''), (''text'', JStr ''User Request: help'')],
                         JObj [(''type'', JStr ''image_url''),
                               (''image_url'',
                                JObj [(''url'', JStr ''data:image/jpeg;base64,QUJD'')])]]
                     [])]]
        [],
      JArr [JObj [(''role'', JStr ''system''), (''content'', JStr ''You are Glass.'')],
            JObj [(''role'', JStr ''user''), (''content'', JStr ''User Request: help'')]]
        []]
   \<and> calls (stream_attempts unreachable_provider (\<lambda>n. True) toy_env ''You are Glass.'' ''help''
            (Some ''QUJD'') 7 (JStr ''gpt-4.1'') initial_state) =
       [JArr [JObj [(''role'', JStr ''system''), (''content'', JStr ''You are Glass.'')],
            JObj [(''role'', JStr ''user''),
                  (''content'',
                   JArr [JObj [(''type'', JStr ''text''), (''text'', JStr ''User Request: help'')],
                         JObj [(''type'', JStr ''image_url''),
                               (''image_url'',
                                JObj [(''url'', JStr ''data:image/jpeg;base64,QUJD'')])]]
                     [])]]
        []]
   \<and> outcome (stream_attempts unreachable_provider (\<lambda>n. True) toy_env ''You are Glass.'' ''help''
            (Some ''QUJD'') 7 (JStr ''gpt-4.1'') initial_state) =
       Propagated (Some ''fetch failed'')
   \<and> calls (stream_attempts rejecting_provider (\<lambda>n. True) toy_env ''You are Glass.'' ''help''
            None 7 (JStr ''gpt-4.1'') initial_state) =
       [JArr [JObj [(''role'', JStr ''system''), (''content'', JStr ''You are Glass.'')],
            JObj [(''role'', JStr ''user''),
                  (''content'',
                   JArr [JObj [(''type'', JStr ''text''), (''text'', JStr ''User Request: help'')]]
                     [])]]
        []]
   \<and> outcome (stream_attempts rejecting_provider (\<lambda>n. True) toy_env ''You are Glass.'' ''help''
            None 7 (JStr ''gpt-4.1'') initial_state) =
       Propagated (Some ''OpenAI API error: 400 Bad Request'')
   \<and> outcome (stream_attempts rejecting_provider (\<lambda>n. True) toy_env ''You are Glass.'' ''help''
            (Some ''QUJD'') 7 (JStr ''gpt-4.1'') initial_state) =
       Propagated (Some ''OpenAI API error: 400 Bad Request'')"
proof -
  have s: "Some ''QUJD'' = Some ''QUJD'' \<and> ''QUJD'' \<noteq> []" "None = None \<or> None = Some []"
    by simp_all
  have a: "''User Request: '' @ ''help'' = ''User Request: help''"
    "''data:image/jpeg;base64,'' @ ''QUJD'' = ''data:image/jpeg;base64,QUJD''"
    by simp_all
  note t1 = multimodal_fallback [where streamChat = text_only_provider and win = "\<lambda>n. True"
      and env = toy_env and sp = "''You are Glass.''" and rq = "''help''"
      and shot = "Some ''QUJD''" and sid = 7 and mdl = "JStr ''gpt-4.1''"
      and st = initial_state and b = "''QUJD''" and e = "None" and e' = "None"]
  note u1 = multimodal_fallback [where streamChat = unreachable_provider and win = "\<lambda>n. True"
      and env = toy_env and sp = "''You are Glass.''" and rq = "''help''"
      and shot = "Some ''QUJD''" and sid = 7 and mdl = "JStr ''gpt-4.1''"
      and st = initial_state and b = "''QUJD''" and e = "Some ''fetch failed''" and e' = "None"]
  note r0 = multimodal_fallback [where streamChat = rejecting_provider and win = "\<lambda>n. True"
      and env = toy_env and sp = "''You are Glass.''" and rq = "''help''"
      and shot = "None" and sid = 7 and mdl = "JStr ''gpt-4.1''"
      and st = initial_state and b = "[]" and e = "Some ''OpenAI API error: 400 Bad Request''" and e' = "None"]
  note r1 = multimodal_fallback [where streamChat = rejecting_provider and win = "\<lambda>n. True"
      and env = toy_env and sp = "''You are Glass.''" and rq = "''help''"
      and shot = "Some ''QUJD''" and sid = 7 and mdl = "JStr ''gpt-4.1''"
      and st = initial_state and b = "''QUJD''" and e = "Some ''OpenAI API error: 400 Bad Request''" and e' = "Some ''OpenAI API error: 400 Bad Request''"]
  from t1 s(1) have i: "image_attached (Some ''QUJD'')"
    and m: "build_messages ''You are Glass.'' ''help'' (Some ''QUJD'') =
      JArr [JObj [(''role'', JStr ''system''), (''content'', JStr ''You are Glass.'')],
            JObj [(''role'', JStr ''user''),
                  (''content'',
                   JArr [JObj [(''type'', JStr ''text''), (''text'', JStr ''User Request: help'')],
                         JObj [(''type'', JStr ''image_url''),
                               (''image_url'',
                                JObj [(''url'', JStr ''data:image/jpeg;base64,QUJD'')])]]
                     [])]]
        []"
    using a by simp_all
  from r0 s(2) have j: "\<not> image_attached None"
    and n: "build_messages ''You are Glass.'' ''help'' None =
      JArr [JObj [(''role'', JStr ''system''), (''content'', JStr ''You are Glass.'')],
            JObj [(''role'', JStr ''user''),
                  (''content'',
                   JArr [JObj [(''type'', JStr ''text''), (''text'', JStr ''User Request: help'')]]
                     [])]]
        []"
    using a by simp_all
  have c: "carries_image (build_messages ''You are Glass.'' ''help'' (Some ''QUJD''))"
    using i by (simp add: carries_image_build)
  have t: "text_only_provider 0 (build_messages ''You are Glass.'' ''help'' (Some ''QUJD'')) =
      Inl (Some ''OpenAI API error: 400 Bad Request - Image input is not supported'')"
    using c by (simp add: text_only_provider_def)
  have u: "unreachable_provider 0 (build_messages ''You are Glass.'' ''help'' (Some ''QUJD'')) =
      Inl (Some ''fetch failed'')"
    by (simp add: unreachable_provider_def)
  have r: "rejecting_provider 0 (build_messages ''You are Glass.'' ''help'' None) =
      Inl (Some ''OpenAI API error: 400 Bad Request'')"
    "rejecting_provider 0 (build_messages ''You are Glass.'' ''help'' (Some ''QUJD'')) =
      Inl (Some ''OpenAI API error: 400 Bad Request'')"
    "rejecting_provider 1 x = Inl (Some ''OpenAI API error: 400 Bad Request'')" for x
    by (simp_all add: rejecting_provider_def)
  have k: "\<exists>e. text_only_provider 0 (build_messages ''You are Glass.'' ''help'' (Some ''QUJD'')) = Inl e
          \<and> (\<exists>k \<in> set [''vision'', ''image'', ''multimodal'', ''unsupported'',
                              ''image_url'', ''400'', ''invalid'', ''not supported''].
                str_includes (case e of None \<Rightarrow> [] | Some m \<Rightarrow> toLowerCase m) k)"
    using t sample_errors(1) by (simp add: isMultimodalError_keywords MULTIMODAL_KEYWORDS_def)
  from t1 i k have "calls (stream_attempts text_only_provider (\<lambda>n. True) toy_env ''You are Glass.'' ''help''
            (Some ''QUJD'') 7 (JStr ''gpt-4.1'') initial_state) =
     [build_messages ''You are Glass.'' ''help'' (Some ''QUJD''),
      JArr [JObj [(''role'', JStr ''system''), (''content'', JStr ''You are Glass.'')],
            JObj [(''role'', JStr ''user''),
                  (''content'', JStr (''User Request: '' @ ''help''))]] []]"
    by blast
  then have "calls (stream_attempts text_only_provider (\<lambda>n. True) toy_env ''You are Glass.'' ''help''
            (Some ''QUJD'') 7 (JStr ''gpt-4.1'') initial_state) =
     [JArr [JObj [(''role'', JStr ''system''), (''content'', JStr ''You are Glass.'')],
            JObj [(''role'', JStr ''user''),
                  (''content'',
                   JArr [JObj [(''type'', JStr ''text''), (''text'', JStr ''User Request: help'')],
                         JObj [(''type'', JStr ''image_url''),
                               (''image_url'',
                                JObj [(''url'', JStr ''data:image/jpeg;base64,QUJD'')])]]
                     [])]]
        [],
      JArr [JObj [(''role'', JStr ''system''), (''content'', JStr ''You are Glass.'')],
            JObj [(''role'', JStr ''user''), (''content'', JStr ''User Request: help'')]]
        []]"
    using m by simp
  moreover from u1 u sample_errors(3)
  have "calls (stream_attempts unreachable_provider (\<lambda>n. True) toy_env ''You are Glass.'' ''help''
            (Some ''QUJD'') 7 (JStr ''gpt-4.1'') initial_state) =
       [build_messages ''You are Glass.'' ''help'' (Some ''QUJD'')]
   \<and> outcome (stream_attempts unreachable_provider (\<lambda>n. True) toy_env ''You are Glass.'' ''help''
            (Some ''QUJD'') 7 (JStr ''gpt-4.1'') initial_state) =
       Propagated (Some ''fetch failed'')"
    by blast
  moreover from r0 r(1) j
  have "calls (stream_attempts rejecting_provider (\<lambda>n. True) toy_env ''You are Glass.'' ''help''
            None 7 (JStr ''gpt-4.1'') initial_state) =
       [build_messages ''You are Glass.'' ''help'' None]
   \<and> outcome (stream_attempts rejecting_provider (\<lambda>n. True) toy_env ''You are Glass.'' ''help''
            None 7 (JStr ''gpt-4.1'') initial_state) =
       Propagated (Some ''OpenAI API error: 400 Bad Request'')"
    by blast
  moreover from r1 r(2,3) i sample_errors(2)
  have "outcome (stream_attempts rejecting_provider (\<lambda>n. True) toy_env ''You are Glass.'' ''help''
            (Some ''QUJD'') 7 (JStr ''gpt-4.1'') initial_state) =
       Propagated (Some ''OpenAI API error: 400 Bad Request'')"
    by blast
  ultimately show ?thesis using m n by simp
qed

section \<open>Properties of the requests in flight\<close>

lemma flags_abort:
  "flags (abort c reason s) = (if c < length (flags s) then (flags s)[c := True] else flags s)"
proof (cases "c < length (controllers s) \<and> \<not> aborted (controllers s ! c)")
  case True
  then show ?thesis by (simp add: flags_def abort_def map_update)
next
  case False
  have "c < length (controllers s) \<Longrightarrow> (flags s)[c := True] = flags s"
    using False by (simp add: flags_def list_update_same_conv)
  with False show ?thesis by (auto simp add: abort_def flags_def)
qed

lemma slot_abort: "abortController (abort c reason s) = abortController s"
  by (simp add: abort_def)

lemma flags_broadcast: "flags (broadcast who s) = flags s"
  by (simp add: flags_def broadcast_def)

lemma one_live_abort:
  assumes "one_live (Some c) fl"
  shows "fl[c := True] = replicate (length fl) True"
proof -
  from assms have c: "c < length fl" and f: "fl = map (\<lambda>k. c \<noteq> k) [0..<length fl]"
    by (simp_all add: one_live_def)
  show ?thesis
  proof (rule nth_equalityI)
    show "length (fl[c := True]) = length (replicate (length fl) True)" by simp
  next
    fix i assume "i < length (fl[c := True])"
    then have i: "i < length fl" by simp
    have "fl ! i = (c \<noteq> i)"
      using f i by (metis (mono_tags, lifting) add_0 length_map nth_map nth_upt length_upt diff_zero)
    then show "fl[c := True] ! i = replicate (length fl) True ! i"
      using i c by (cases "i = c") simp_all
  qed
qed

lemma one_live_none:
  assumes "one_live None fl"
  shows "fl = replicate (length fl) True"
proof (rule nth_equalityI)
  show "length fl = length (replicate (length fl) True)" by simp
next
  fix i assume i: "i < length fl"
  from assms have f: "fl = map (\<lambda>k. True) [0..<length fl]"
    by (simp add: one_live_def)
  have "fl ! i = True"
    using f i by (metis (mono_tags, lifting) length_map nth_map length_upt diff_zero)
  then show "fl ! i = replicate (length fl) True ! i" using i by simp
qed

lemma one_live_fresh: "one_live (Some n) (replicate n True @ [False])"
  unfolding one_live_def
  by (auto intro!: nth_equalityI simp add: nth_append)

lemma one_live_cleared: "one_live None (replicate n True)"
  unfolding one_live_def
  by (auto intro!: nth_equalityI)


lemma flags_listener:
  "map aborted (cs[c := (cs ! c)\<lparr>listeners := l\<rparr>]) = map aborted cs"
  by (cases "c < length cs") (simp_all add: map_update list_update_same_conv list_update_beyond)

lemma one_live_send:
  assumes "one_live (abortController s) (flags s)"
  shows "one_live (abortController (send up now s)) (flags (send up now s))"
proof (cases "abortController s")
  case None
  have "flags (send up now s) = flags s @ [False]"
    "abortController (send up now s) = Some (length (flags s))"
    using None by (simp_all add: send_def Let_def flags_def broadcast_def)
  then show ?thesis
    using one_live_none [of "flags s"] assms None one_live_fresh [of "length (flags s)"]
    by simp
next
  case (Some c)
  then have c: "c < length (flags s)"
    using assms by (simp add: one_live_def)
  have a: "flags (abort c ''New request received.'' (broadcast (FromSend (length (requests s)))
             (s\<lparr>ask := x\<rparr>))) = (flags s)[c := True]" for x
    using c by (simp add: flags_abort flags_broadcast) (simp add: flags_def broadcast_def)
  have "flags (send up now s) = (flags s)[c := True] @ [False]"
    using Some a by (simp add: send_def Let_def broadcast_def) (simp add: flags_def)
  moreover have "abortController (send up now s) = Some (length (flags s))"
    using Some by (simp add: send_def Let_def broadcast_def slot_abort flags_def)
      (simp add: abort_def)
  ultimately show ?thesis
    using one_live_abort [of c "flags s"] assms Some one_live_fresh [of "length (flags s)"]
    by simp
qed

lemma one_live_close:
  assumes "one_live (abortController s) (flags s)"
  shows "one_live (abortController (closeAskWindow s)) (flags (closeAskWindow s))"
proof (cases "abortController s")
  case None
  then have "flags (closeAskWindow s) = flags s" "abortController (closeAskWindow s) = None"
    by (simp_all add: closeAskWindow_def Let_def flags_def broadcast_def)
  with assms None show ?thesis by simp
next
  case (Some c)
  then have c: "c < length (flags s)"
    using assms by (simp add: one_live_def)
  have "flags (closeAskWindow s) = flags (abort c ''Window closed by user'' s)"
    "abortController (closeAskWindow s) = None"
    using Some by (simp_all add: closeAskWindow_def Let_def flags_def broadcast_def)
  then show ?thesis
    using one_live_abort [of c "flags s"] assms Some c one_live_cleared [of "length (flags s)"]
    by (simp add: flags_abort)
qed

lemma one_live_step:
  assumes "one_live (abortController s) (flags s)" and "step e s = Some s'"
  shows "one_live (abortController s') (flags s')"
proof (cases e)
  case (Send up now)
  with assms show ?thesis using one_live_send by auto
next
  case (Opened r)
  with assms(2) have "s' = opened r s" by (simp split: if_splits)
  then have "flags s' = flags s" "abortController s' = abortController s"
    by (simp_all add: opened_def Let_def flags_def broadcast_def flags_listener)
  with assms(1) show ?thesis by simp
next
  case (Failed r)
  with assms(2) have "s' = failed r s" by (simp split: if_splits)
  then have "flags s' = flags s" "abortController s' = abortController s"
    by (simp_all add: failed_def Let_def flags_def broadcast_def)
  with assms(1) show ?thesis by simp
next
  case (Chunk r t)
  with assms(2) have "s' = chunk r t s" by (simp split: if_splits)
  then have "flags s' = flags s" "abortController s' = abortController s"
    by (simp_all add: chunk_def Let_def flags_def broadcast_def)
  with assms(1) show ?thesis by simp
next
  case (Ended r)
  with assms(2) have "s' = ended r s" by (simp split: if_splits)
  then have "flags s' = flags s" "abortController s' = abortController s"
    by (simp_all add: ended_def Let_def flags_def broadcast_def)
  with assms(1) show ?thesis by simp
next
  case Close
  with assms show ?thesis using one_live_close by auto
qed

lemma one_live_run:
  "one_live (abortController s) (flags s) \<Longrightarrow> run es s = Some s' \<Longrightarrow>
   one_live (abortController s') (flags s')"
proof (induction es arbitrary: s)
  case Nil
  then show ?case by simp
next
  case (Cons e es)
  then show ?case
    by (cases "step e s") (auto dest: one_live_step)
qed

lemma live_controllers_flags:
  "live_controllers s = filter (\<lambda>c. \<not> flags s ! c) [0..<length (flags s)]"
  by (auto simp add: live_controllers_def flags_def intro: filter_cong)

lemma filter_eq_upt: "filter (\<lambda>k. c = k) [0..<n] = (if c < n then [c] else [])"
  by (induction n) (auto simp add: less_Suc_eq)

lemma one_live_filter:
  assumes "one_live slot fl"
  shows "filter (\<lambda>c. \<not> fl ! c) [0..<length fl] = (case slot of None \<Rightarrow> [] | Some c \<Rightarrow> [c])"
proof -
  have n: "\<And>i. i < length fl \<Longrightarrow> fl ! i = (slot \<noteq> Some i)"
  proof -
    fix i assume i: "i < length fl"
    from assms have "fl = map (\<lambda>c. slot \<noteq> Some c) [0..<length fl]"
      by (simp add: one_live_def)
    then have "fl ! i = map (\<lambda>c. slot \<noteq> Some c) [0..<length fl] ! i" by simp
    then show "fl ! i = (slot \<noteq> Some i)" using i by simp
  qed
  have "filter (\<lambda>c. \<not> fl ! c) [0..<length fl] = filter (\<lambda>c. slot = Some c) [0..<length fl]"
    using n by (auto intro: filter_cong)
  also have "\<dots> = (case slot of None \<Rightarrow> [] | Some c \<Rightarrow> [c])"
  proof (cases slot)
    case None
    then show ?thesis by simp
  next
    case (Some c)
    then have c: "c < length fl" using assms by (simp add: one_live_def)
    have "filter (\<lambda>k. c = k) [0..<length fl] = [c]"
      using c by (simp add: filter_eq_upt)
    then show ?thesis using Some by simp
  qed
  finally show ?thesis .
qed

lemma single_live_controller:
  assumes "run es new_service = Some s"
  shows "live_controllers s = (case abortController s of None \<Rightarrow> [] | Some c \<Rightarrow> [c])"
proof -
  have "one_live (abortController new_service) (flags new_service)"
    by (simp add: one_live_def new_service_def flags_def)
  then have "one_live (abortController s) (flags s)"
    using assms by (rule one_live_run)
  then show ?thesis
    by (simp add: live_controllers_flags one_live_filter)
qed


lemma cancel_reader_props:
  "length (cancel_reader k rs) = length rs"
  "r < length rs \<Longrightarrow> cancelled (cancel_reader k rs ! r) = (k = r \<or> cancelled (rs ! r))"
  "r < length rs \<Longrightarrow> phase (cancel_reader k rs ! r) = phase (rs ! r)"
  by (auto simp add: cancel_reader_def nth_list_update)

lemma foldr_cancel_props:
  "length (foldr cancel_reader ls rs) = length rs"
  "r < length rs \<Longrightarrow>
     cancelled (foldr cancel_reader ls rs ! r) = (r \<in> set ls \<or> cancelled (rs ! r))"
  "r < length rs \<Longrightarrow> phase (foldr cancel_reader ls rs ! r) = phase (rs ! r)"
  by (induction ls) (auto simp add: cancel_reader_props)

lemma registered_reader_is_cancelled:
  assumes "in_phase r Reading s" and "abortController s = Some c"
    and "c < length (controllers s)" and "\<not> aborted (controllers s ! c)"
    and "r \<in> set (listeners (controllers s ! c))"
  shows "step (Chunk r token) (send userPrompt now s) = None"
proof -
  from assms(1) have r: "r < length (requests s)" by (simp add: in_phase_def)
  have "requests (send userPrompt now s) =
          foldr cancel_reader (listeners (controllers s ! c)) (requests s)
          @ [\<lparr>signal = length (controllers s), phase = Preparing, accumulated = [],
               cancelled = False\<rparr>]"
    using assms(2-4) by (simp add: send_def Let_def broadcast_def abort_def)
  then have "cancelled (requests (send userPrompt now s) ! r)"
    using r assms(5) by (simp add: nth_append foldr_cancel_props)
  then show ?thesis by simp
qed

text \<open>
  C2. Single flight. After any run of events at most one controller is not aborted, the one
  in the slot (\<open>single_live_controller\<close>), and a call of \<open>sendMessage\<close> cancels the
  reader of a request in flight whose abort listener is registered by then, so that it
  yields no further chunk (\<open>registered_reader_is_cancelled\<close>). A request that is superseded
  while it still awaits \<open>streamChat\<close> is not stopped: its abort listener is registered on a
  signal that is already aborted and never runs. In the run below the second call aborts
  controller \<open>0\<close> before the stream of the first request opens; reader \<open>0\<close> is never
  cancelled, and the token \<open>late\<close> of the first request is broadcast as the response to the
  question of the second.
\<close>

theorem superseded_request_still_broadcasts:
  "map_option
     (\<lambda>s. (abortController s, map aborted (controllers s), map cancelled (requests s),
           map fst (broadcasts s), currentQuestion (ask s), currentResponse (ask s)))
     (run [Send (JStr ''first'') 1, Send (JStr ''second'') 2, Opened 0, Chunk 0 ''late'']
        new_service) =
   Some (Some 1, [True, False], [False, False],
         [FromSend 0, FromSend 1, FromStart 0, FromToken 0], ''second'', ''late'')"
  by code_simp

lemma registered_then_superseded:
  "run [Send (JStr ''first'') 1, Opened 0, Chunk 0 ''early'', Send (JStr ''second'') 2,
        Chunk 0 ''late''] new_service = None"
  by code_simp

end
